theory Spec2Isabelle
  imports Main "HOL-Library.Word"
begin

unbundle bit_operations_syntax

section \<open>The dictionary of \<^verbatim>\<open>src/src/dictionary.c\<close>\<close>

text \<open>
  The development embeds the dictionary engine of \<^verbatim>\<open>dictionary.c\<close>: the hash, the two
  lookups (sections and key/value pairs, each with a linear and a binary-search mode), the
  lookup cache held in the two file-scope statics \<^verbatim>\<open>de_last\<close> and \<^verbatim>\<open>hash_last\<close>,
  \<^verbatim>\<open>dictionary_get\<close>, \<^verbatim>\<open>dictionary_set\<close>, the dump and the two sorts.

  Conventions of the embedding.
  \<^item> A C string is a \<open>string\<close> (the bytes before the terminating NUL); a \<^verbatim>\<open>char *\<close> that
    may be \<^verbatim>\<open>NULL\<close> is a \<open>string option\<close>, \<open>None\<close> being \<^verbatim>\<open>NULL\<close>.
  \<^item> \<^verbatim>\<open>hash_t\<close> is \<^verbatim>\<open>uint32_t\<close>, here \<open>32 word\<close>.
  \<^item> An array is the list of its allocated slots (so its length is the capacity); the
    element counts \<^verbatim>\<open>n\<close> and capacities \<^verbatim>\<open>len\<close> are kept as the separate fields the
    structs have.
  \<^item> A pointer to a section is a \<open>deref\<close>, read relative to the dictionary \<open>d\<close> passed to
    the call: the unnamed section \<^verbatim>\<open>d->noname\<close>, the slot \<^verbatim>\<open>&d->entries[i]\<close>, or
    \<open>Other a\<close>, a section that is no part of \<open>d\<close>. The cache keeps such a pointer, so after
    the array is reordered in place it designates whatever now lives in that slot, as in C;
    and since \<^verbatim>\<open>de_last\<close> has file scope, it may have been stored by a call on another
    dictionary. The sections outside \<open>d\<close> are the list \<open>outside\<close>, kept with the statics
    (only \<^verbatim>\<open>de_last\<close> reaches them): \<open>Other a\<close> points to its element \<open>a\<close>, which is
    \<open>None\<close> once that memory has been released.
  \<^item> Dereferencing \<^verbatim>\<open>NULL\<close> (also inside \<^verbatim>\<open>strcmp\<close>, \<^verbatim>\<open>strdup\<close>,
    \<^verbatim>\<open>strchr\<close> and \<^verbatim>\<open>fprintf\<close>), reading outside an array and using released
    memory are results of their own, \<open>Inl\<close> of a \<open>fault\<close>; every function that can do so
    returns \<open>fault + _\<close>.
  \<^item> \<^verbatim>\<open>realloc\<close> may fail, and the slots it adds are not initialised. The allocator's
    answer is an argument of the functions that grow: \<open>None\<close> for failure, \<open>Some f\<close>
    for success, \<open>f i\<close> being the content found in the \<open>i\<close>-th added slot. A
    \<^verbatim>\<open>realloc\<close> that succeeds may move the array: \<^verbatim>\<open>dictionary_set\<close> assigns
    \<^verbatim>\<open>de_last\<close> the slot it takes right after the section array has grown, so no pointer
    into the old place of the array is kept.
  \<^item> \<^verbatim>\<open>strdup\<close> may fail as well, returning \<^verbatim>\<open>NULL\<close>: whether each \<^verbatim>\<open>strdup\<close> of
    \<^verbatim>\<open>dictionary_set\<close> succeeds is part of the allocator's answer. The one
    \<^verbatim>\<open>strdup\<close> of \<^verbatim>\<open>dictionary_get\<close>, a function that changes nothing, is taken to
    succeed.
  \<^item> \<^verbatim>\<open>free\<close> has no effect in the model: the functions embedded here release only
    strings and pair arrays that nothing refers to afterwards. The static counter
    \<^verbatim>\<open>iter\<close>, written by the lookups and read only by debug output, is left out.
\<close>

subsection \<open>Types\<close>

type_synonym hash_t = "32 word"

datatype fault = NullDeref | OutOfBounds | Released

record keyval =
  kv_key :: "string option"
  kv_val :: "string option"
  kv_hash :: hash_t

record dictentry =
  de_n :: nat
  de_len :: nat
  de_kvlist :: "keyval list option"
  de_sorted :: bool
  de_name :: "string option"
  de_hash :: hash_t

record dictionary =
  d_n :: nat
  d_len :: nat
  d_noname :: "dictentry option"
  d_entries :: "dictentry list option"
  d_sorted :: bool

datatype deref = Noname | Entry nat | Other nat

text \<open>
  The file-scope statics \<^verbatim>\<open>de_last\<close> and \<^verbatim>\<open>hash_last\<close>, with the sections outside
  the dictionary that \<^verbatim>\<open>de_last\<close> may point to.
\<close>

record statics =
  de_last :: "deref option"
  hash_last :: hash_t
  outside :: "dictentry option list"

datatype dicterr_t = DERR_OK | DERR_BADDATA | DERR_EMPTY

definition ENTMINSZ :: nat where
  "ENTMINSZ = 10"

definition DICTMINSZ :: nat where
  "DICTMINSZ = 5"

text \<open>A struct filled with zero bytes, as \<^verbatim>\<open>calloc\<close> and \<^verbatim>\<open>memset(p, 0, ...)\<close> leave it.\<close>

definition zero_keyval :: keyval where
  "zero_keyval = \<lparr>kv_key = None, kv_val = None, kv_hash = 0\<rparr>"

definition zero_dictentry :: dictentry where
  "zero_dictentry =
     \<lparr>de_n = 0, de_len = 0, de_kvlist = None, de_sorted = False, de_name = None, de_hash = 0\<rparr>"

definition statics_init :: statics where
  "statics_init = \<lparr>de_last = None, hash_last = 0, outside = []\<rparr>"

subsection \<open>The hash\<close>

text \<open>
  \<^verbatim>\<open>(hash_t)key[i]\<close> converts a \<^verbatim>\<open>char\<close>; where \<^verbatim>\<open>char\<close> is signed (as on the
  platforms the code is built for) a byte above 127 is sign-extended. Bytes up to 127, the
  only ones the concrete inputs below use, convert the same with either signedness.
\<close>

definition char_hash :: "char \<Rightarrow> hash_t" where
  "char_hash c =
     (if (of_char c :: nat) < 128 then of_nat (of_char c) else of_nat (of_char c) - 256)"

definition hash_step :: "hash_t \<Rightarrow> char \<Rightarrow> hash_t" where
  "hash_step h c =
     (let h1 = h + char_hash c;
          h2 = h1 + push_bit 10 h1
      in h2 XOR drop_bit 6 h2)"

definition hash_final :: "hash_t \<Rightarrow> hash_t" where
  "hash_final h =
     (let h1 = h + push_bit 3 h;
          h2 = h1 XOR drop_bit 11 h1
      in h2 + push_bit 15 h2)"

definition dictionary_hash :: "string option \<Rightarrow> hash_t" where
  "dictionary_hash key =
     (case key of
        None \<Rightarrow> 0
      | Some s \<Rightarrow> hash_final (foldl hash_step 0 s))"

subsection \<open>Strings and arrays\<close>

text \<open>
  \<^verbatim>\<open>strchr(dup, ':')\<close> followed by \<^verbatim>\<open>*delim++ = 0\<close>: the text before the first colon
  and, when there is a colon, the text after it.
\<close>

definition split_colon :: "string \<Rightarrow> string \<times> string option" where
  "split_colon a =
     (let str = takeWhile (\<lambda>c. c \<noteq> CHR '':'') a;
          rest = dropWhile (\<lambda>c. c \<noteq> CHR '':'') a
      in (str, case rest of [] \<Rightarrow> None | c # k \<Rightarrow> Some k))"

text \<open>\<^verbatim>\<open>!strcmp(key, s)\<close>; the second argument is read through a pointer of the array.\<close>

definition streq :: "string \<Rightarrow> string option \<Rightarrow> fault + bool" where
  "streq key s = (case s of None \<Rightarrow> Inl NullDeref | Some t \<Rightarrow> Inr (key = t))"

text \<open>The sign of \<^verbatim>\<open>strcmp\<close>, which compares the bytes as \<^verbatim>\<open>unsigned char\<close>.\<close>

fun strcmp :: "string \<Rightarrow> string \<Rightarrow> int" where
  "strcmp [] [] = 0"
| "strcmp [] (y # ys) = - 1"
| "strcmp (x # xs) [] = 1"
| "strcmp (x # xs) (y # ys) =
     (if (of_char x :: nat) < of_char y then - 1
      else if (of_char y :: nat) < of_char x then 1
      else strcmp xs ys)"

text \<open>Reading \<^verbatim>\<open>a[i]\<close> with an \<^verbatim>\<open>int\<close> index.\<close>

definition at :: "'a list \<Rightarrow> int \<Rightarrow> fault + 'a" where
  "at xs i = (if 0 \<le> i \<and> i < int (length xs) then Inr (xs ! nat i) else Inl OutOfBounds)"

subsection \<open>The search loops\<close>

text \<open>
  \<^verbatim>\<open>dictentry_find\<close> and \<^verbatim>\<open>keyval_find\<close> contain the same loops, once over the sections
  (fields \<^verbatim>\<open>hash\<close> and \<^verbatim>\<open>name\<close>) and once over the pairs (fields \<^verbatim>\<open>hash\<close> and
  \<^verbatim>\<open>key\<close>). The loops are written once, over the list of these two fields of every
  array element; they return the index of the element found. The indices are the C
  \<^verbatim>\<open>int\<close>s; \<^verbatim>\<open>(int)d->n\<close> is taken not to overflow.
\<close>

type_synonym probe = "hash_t \<times> string option"

text \<open>The unsorted case: \<^verbatim>\<open>for(i = 0; i < L; ++i)\<close>.\<close>

function linear_find :: "probe list \<Rightarrow> string \<Rightarrow> hash_t \<Rightarrow> int \<Rightarrow> int \<Rightarrow> fault + nat option" where
  "linear_find xs key hash L i =
     (if i < L then
        (case at xs i of
           Inl e \<Rightarrow> Inl e
         | Inr (h, s) \<Rightarrow>
             if h = hash then
               (case streq key s of
                  Inl e \<Rightarrow> Inl e
                | Inr eq \<Rightarrow> if eq then Inr (Some (nat i)) else linear_find xs key hash L (i + 1))
             else linear_find xs key hash L (i + 1))
      else Inr None)"
  by pat_completeness auto
termination
  by (relation "measure (\<lambda>(xs, key, hash, L, i). nat (L - i))") auto

text \<open>\<^verbatim>\<open>while(i && elist[--i].hash == hash);\<close> The result is the final \<^verbatim>\<open>i\<close>.\<close>

function goto_first :: "probe list \<Rightarrow> hash_t \<Rightarrow> int \<Rightarrow> fault + int" where
  "goto_first xs hash i =
     (if i \<noteq> 0 then
        (case at xs (i - 1) of
           Inl e \<Rightarrow> Inl e
         | Inr (h, s) \<Rightarrow> if h = hash then goto_first xs hash (i - 1) else Inr (i - 1))
      else Inr i)"
  by pat_completeness auto
termination
  by (relation "measure (\<lambda>(xs, hash, i). nat i)") (auto simp: at_def split: if_splits)

text \<open>
  \<^verbatim>\<open>while(i < L && elist[++i].hash == hash){ if (!strcmp(...)) return &elist[i]; }
  return NULL;\<close> where \<open>L\<close> is the value after \<^verbatim>\<open>--L\<close>.
\<close>

function scan_cluster :: "probe list \<Rightarrow> string \<Rightarrow> hash_t \<Rightarrow> int \<Rightarrow> int \<Rightarrow> fault + nat option" where
  "scan_cluster xs key hash L i =
     (if i < L then
        (case at xs (i + 1) of
           Inl e \<Rightarrow> Inl e
         | Inr (h, s) \<Rightarrow>
             if h = hash then
               (case streq key s of
                  Inl e \<Rightarrow> Inl e
                | Inr eq \<Rightarrow> if eq then Inr (Some (nat (i + 1))) else scan_cluster xs key hash L (i + 1))
             else Inr None)
      else Inr None)"
  by pat_completeness auto
termination
  by (relation "measure (\<lambda>(xs, key, hash, L, i). nat (L - i))") auto

text \<open>
  The sorted case: \<^verbatim>\<open>while(down <= up)\<close>. \<^verbatim>\<open>down\<close> starts at 0 and only grows, so
  \<^verbatim>\<open>up + down\<close> is not negative where it is halved, and the division of C is \<open>div\<close>.
\<close>

function binary_find ::
  "probe list \<Rightarrow> string \<Rightarrow> hash_t \<Rightarrow> int \<Rightarrow> int \<Rightarrow> int \<Rightarrow> fault + nat option" where
  "binary_find xs key hash L down up =
     (if down \<le> up then
        (let i = (up + down) div 2 in
         case at xs i of
           Inl e \<Rightarrow> Inl e
         | Inr (h, s) \<Rightarrow>
             if h = hash then
               (case streq key s of
                  Inl e \<Rightarrow> Inl e
                | Inr eq \<Rightarrow>
                    if eq then Inr (Some (nat i))
                    else
                      (case goto_first xs hash i of
                         Inl e \<Rightarrow> Inl e
                       | Inr j \<Rightarrow> scan_cluster xs key hash (L - 1) j))
             else if h < hash then binary_find xs key hash L (i + 1) up
             else binary_find xs key hash L down (i - 1))
      else Inr None)"
  by pat_completeness auto
termination
  by (relation "measure (\<lambda>(xs, key, hash, L, down, up). nat (up - down + 1))") auto

subsection \<open>Finding a section and finding a pair\<close>

definition entry_probe :: "dictentry \<Rightarrow> probe" where
  "entry_probe e = (de_hash e, de_name e)"

definition keyval_probe :: "keyval \<Rightarrow> probe" where
  "keyval_probe kv = (kv_hash kv, kv_key kv)"

text \<open>
  \<^verbatim>\<open>dictentry_find\<close> returns the pointer found (or \<^verbatim>\<open>NULL\<close>) and the statics, which it
  updates when the search itself finds a section.
\<close>

definition dictentry_find ::
  "statics \<Rightarrow> dictionary option \<Rightarrow> string option \<Rightarrow> fault + (deref option \<times> statics)" where
  "dictentry_find g d key =
     (case d of
        None \<Rightarrow> Inr (None, g)
      | Some dd \<Rightarrow>
          (case key of
             None \<Rightarrow> Inr (None, g)
           | Some k \<Rightarrow>
               (case d_entries dd of
                  None \<Rightarrow> Inr (None, g)
                | Some elist \<Rightarrow>
                    (let L = int (d_n dd);
                         hash = dictionary_hash key
                     in if hash_last g = hash then Inr (de_last g, g)
                        else
                          (case (if d_sorted dd
                                 then binary_find (map entry_probe elist) k hash L 0 (L - 1)
                                 else linear_find (map entry_probe elist) k hash L 0) of
                             Inl e \<Rightarrow> Inl e
                           | Inr None \<Rightarrow> Inr (None, g)
                           | Inr (Some i) \<Rightarrow>
                               Inr (Some (Entry i),
                                    g\<lparr>de_last := Some (Entry i),
                                      hash_last := de_hash (elist ! i)\<rparr>))))))"

text \<open>\<^verbatim>\<open>keyval_find\<close> returns the index of the pair found in \<^verbatim>\<open>de->kvlist\<close>.\<close>

definition keyval_find :: "dictentry option \<Rightarrow> string option \<Rightarrow> fault + nat option" where
  "keyval_find de key =
     (case de of
        None \<Rightarrow> Inr None
      | Some e \<Rightarrow>
          (case key of
             None \<Rightarrow> Inr None
           | Some k \<Rightarrow>
               (let hash = dictionary_hash key in
                case de_kvlist e of
                  None \<Rightarrow> Inr None
                | Some kvlist \<Rightarrow>
                    (let L = int (de_n e) in
                     if de_sorted e
                     then binary_find (map keyval_probe kvlist) k hash L 0 (L - 1)
                     else linear_find (map keyval_probe kvlist) k hash L 0))))"

text \<open>
  Reading a section through a pointer to it, and writing it: a write changes the
  dictionary (\<open>store_de\<close>) or the memory outside it (\<open>store_out\<close>).
\<close>

definition deref_de :: "statics \<Rightarrow> dictionary \<Rightarrow> deref \<Rightarrow> fault + dictentry" where
  "deref_de g d p =
     (case p of
        Noname \<Rightarrow> (case d_noname d of None \<Rightarrow> Inl NullDeref | Some e \<Rightarrow> Inr e)
      | Entry i \<Rightarrow> (case d_entries d of None \<Rightarrow> Inl NullDeref | Some es \<Rightarrow> at es (int i))
      | Other a \<Rightarrow>
          (if a < length (outside g)
           then (case outside g ! a of None \<Rightarrow> Inl Released | Some e \<Rightarrow> Inr e)
           else Inl Released))"

definition store_de :: "dictionary \<Rightarrow> deref \<Rightarrow> dictentry \<Rightarrow> dictionary" where
  "store_de d p e =
     (case p of
        Noname \<Rightarrow> d\<lparr>d_noname := Some e\<rparr>
      | Entry i \<Rightarrow> d\<lparr>d_entries := map_option (\<lambda>es. es[i := e]) (d_entries d)\<rparr>
      | Other a \<Rightarrow> d)"

definition store_out :: "statics \<Rightarrow> deref \<Rightarrow> dictentry \<Rightarrow> statics" where
  "store_out g p e =
     (case p of
        Other a \<Rightarrow> g\<lparr>outside := (outside g)[a := Some e]\<rparr>
      | _ \<Rightarrow> g)"

text \<open>The value of the pointer \<^verbatim>\<open>d->noname\<close>.\<close>

definition noname_ptr :: "dictionary \<Rightarrow> deref option" where
  "noname_ptr d = (case d_noname d of None \<Rightarrow> None | Some e \<Rightarrow> Some Noname)"

subsection \<open>Creating a dictionary\<close>

text \<open>
  Each \<^verbatim>\<open>calloc\<close> may fail; whether it succeeds is an argument. \<^verbatim>\<open>dictentry_new\<close> makes
  the struct and then the pair array, \<^verbatim>\<open>dictionary_new\<close> the struct, the section array and
  the unnamed section.
\<close>

definition dictentry_new :: "bool \<Rightarrow> bool \<Rightarrow> nat \<Rightarrow> dictentry option" where
  "dictentry_new ok_e ok_kvlist sz =
     (let sz = (if sz < ENTMINSZ then ENTMINSZ else sz) in
      if ok_e then
        Some (if ok_kvlist
              then zero_dictentry\<lparr>de_kvlist := Some (replicate sz zero_keyval), de_len := sz\<rparr>
              else zero_dictentry)
      else None)"

definition dictionary_new :: "bool \<Rightarrow> bool \<Rightarrow> bool \<Rightarrow> bool \<Rightarrow> nat \<Rightarrow> dictionary option" where
  "dictionary_new ok_d ok_entries ok_e ok_kvlist sz =
     (let sz = (if sz < DICTMINSZ then DICTMINSZ else sz) in
      if ok_d then
        (let d0 = \<lparr>d_n = 0, d_len = 0, d_noname = None, d_entries = None, d_sorted = False\<rparr>;
             d1 = (if ok_entries
                   then d0\<lparr>d_entries := Some (replicate sz zero_dictentry), d_len := sz\<rparr>
                   else d0)
         in Some (d1\<lparr>d_noname := dictentry_new ok_e ok_kvlist 0\<rparr>))
      else None)"

subsection \<open>Growing\<close>

text \<open>
  \<^verbatim>\<open>realloc\<close> keeps the old slots and adds \<^verbatim>\<open>ENTMINSZ\<close> (or \<^verbatim>\<open>DICTMINSZ\<close>) slots of
  unspecified content; \<^verbatim>\<open>realloc(NULL, _)\<close> allocates. Both functions are only called
  with a pointer that has been dereferenced before, so their test for \<^verbatim>\<open>NULL\<close> is not
  modelled.
\<close>

definition dictentry_grow :: "(nat \<Rightarrow> keyval) option \<Rightarrow> dictentry \<Rightarrow> int \<times> dictentry" where
  "dictentry_grow answer e =
     (case answer of
        None \<Rightarrow> (- 1, e)
      | Some f \<Rightarrow>
          (0, e\<lparr>de_kvlist :=
                   Some ((case de_kvlist e of None \<Rightarrow> [] | Some kvs \<Rightarrow> kvs) @ map f [0..<ENTMINSZ]),
                 de_len := de_len e + ENTMINSZ\<rparr>))"

definition dictionary_grow :: "(nat \<Rightarrow> dictentry) option \<Rightarrow> dictionary \<Rightarrow> int \<times> dictionary" where
  "dictionary_grow answer d =
     (case answer of
        None \<Rightarrow> (- 1, d)
      | Some f \<Rightarrow>
          (0, d\<lparr>d_entries :=
                   Some ((case d_entries d of None \<Rightarrow> [] | Some es \<Rightarrow> es) @ map f [0..<DICTMINSZ]),
                 d_len := d_len d + DICTMINSZ\<rparr>))"

subsection \<open>Looking a value up\<close>

text \<open>
  The common part of \<^verbatim>\<open>dictionary_get\<close> and \<^verbatim>\<open>dictionary_set\<close>:
  \<^verbatim>\<open>if(de){ kv = keyval_find(de, key); ... }\<close>. The result names the section pointer, the
  section, its pair array and the index of the pair.
\<close>

definition lookup_pair ::
  "statics \<Rightarrow> dictionary \<Rightarrow> deref option \<Rightarrow> string \<Rightarrow>
     fault + (deref \<times> dictentry \<times> keyval list \<times> nat) option" where
  "lookup_pair g d de key =
     (case de of
        None \<Rightarrow> Inr None
      | Some p \<Rightarrow>
          (case deref_de g d p of
             Inl f \<Rightarrow> Inl f
           | Inr e \<Rightarrow>
               (case keyval_find (Some e) (Some key) of
                  Inl f \<Rightarrow> Inl f
                | Inr None \<Rightarrow> Inr None
                | Inr (Some i) \<Rightarrow>
                    (case de_kvlist e of
                       None \<Rightarrow> Inl NullDeref
                     | Some kvs \<Rightarrow> Inr (Some (p, e, kvs, i))))))"

text \<open>
  The section an address selects, after it has been split at the colon:
  \<^verbatim>\<open>if(delim) de = dictentry_find(d, dup); else de = d->noname;\<close>. Reading
  \<^verbatim>\<open>d->noname\<close> through a null \<^verbatim>\<open>d\<close> is a fault.
\<close>

definition find_section ::
  "statics \<Rightarrow> dictionary option \<Rightarrow> string \<Rightarrow> string option \<Rightarrow>
     fault + (deref option \<times> statics)" where
  "find_section g d dup delim =
     (case delim of
        Some k \<Rightarrow> dictentry_find g d (Some dup)
      | None \<Rightarrow>
          (case d of
             None \<Rightarrow> Inl NullDeref
           | Some dd \<Rightarrow> Inr (noname_ptr dd, g)))"

text \<open>
  \<^verbatim>\<open>dictionary_get\<close> starts with \<^verbatim>\<open>strdup(key)\<close> and, for an address without a colon, reads
  \<^verbatim>\<open>d->noname\<close>; neither pointer is tested before. The statics are returned since
  \<^verbatim>\<open>dictentry_find\<close> may change them.
\<close>

definition dictionary_get ::
  "statics \<Rightarrow> dictionary option \<Rightarrow> string option \<Rightarrow> string option \<Rightarrow>
     fault + (string option \<times> statics)" where
  "dictionary_get g d key def =
     (case key of
        None \<Rightarrow> Inl NullDeref
      | Some a \<Rightarrow>
          (case split_colon a of
             (str, delim) \<Rightarrow>
               (case find_section g d str delim of
                  Inl f \<Rightarrow> Inl f
                | Inr (de, g1) \<Rightarrow>
                    (case de of
                       None \<Rightarrow> Inr (def, g1)
                     | Some p \<Rightarrow>
                         (case d of
                            None \<Rightarrow> Inl NullDeref
                          | Some dd \<Rightarrow>
                              (case lookup_pair g1 dd de (case delim of Some k \<Rightarrow> k | None \<Rightarrow> str) of
                                 Inl f \<Rightarrow> Inl f
                               | Inr None \<Rightarrow> Inr (def, g1)
                               | Inr (Some (p, e, kvs, i)) \<Rightarrow> Inr (kv_val (kvs ! i), g1)))))))"

subsection \<open>Setting and deleting\<close>

text \<open>
  What the allocator answers during one call of \<^verbatim>\<open>dictionary_set\<close>: whether
  \<^verbatim>\<open>strdup(key)\<close> at the entry of the function succeeds, whether the \<^verbatim>\<open>strdup\<close> of the
  value succeeds (a call reaches at most one of the two places that copy it), the answer
  of the \<^verbatim>\<open>realloc\<close> in \<^verbatim>\<open>dictionary_grow\<close>, whether the \<^verbatim>\<open>strdup\<close> of the name of
  a new section succeeds, the answer of the \<^verbatim>\<open>realloc\<close> in \<^verbatim>\<open>dictentry_grow\<close>, and
  whether the \<^verbatim>\<open>strdup\<close> of the key of a new pair succeeds.
\<close>

record alloc =
  strdup_address :: bool
  strdup_val :: bool
  grow_dictionary :: "(nat \<Rightarrow> dictentry) option"
  strdup_name :: bool
  grow_dictentry :: "(nat \<Rightarrow> keyval) option"
  strdup_key :: bool

definition strdup :: "bool \<Rightarrow> string \<Rightarrow> string option" where
  "strdup ok s = (if ok then Some s else None)"

text \<open>
  \<^verbatim>\<open>dictentry_del\<close> releases the strings of the first \<^verbatim>\<open>n\<close> pairs, the pair array and the
  name. Only its reads are visible in the model.
\<close>

definition dictentry_del :: "dictentry \<Rightarrow> fault + unit" where
  "dictentry_del e =
     (case de_kvlist e of
        None \<Rightarrow> if de_n e \<le> 1 then Inr () else Inl NullDeref
      | Some kvs \<Rightarrow> if de_n e \<le> length kvs then Inr () else Inl OutOfBounds)"

text \<open>
  The key was found: \<^verbatim>\<open>memset(kv, 0, sizeof(keyval)); de->sorted = 0;\<close> when the value is
  \<^verbatim>\<open>NULL\<close>, \<^verbatim>\<open>kv->val = strdup(val)\<close> otherwise. The result is the section as it is
  written back.
\<close>

definition found_pair :: "alloc \<Rightarrow> dictentry \<Rightarrow> keyval list \<Rightarrow> nat \<Rightarrow> string option \<Rightarrow> dictentry" where
  "found_pair al e kvs i val =
     (case val of
        None \<Rightarrow> e\<lparr>de_kvlist := Some (kvs[i := zero_keyval]), de_sorted := False\<rparr>
      | Some v \<Rightarrow> e\<lparr>de_kvlist := Some (kvs[i := (kvs ! i)\<lparr>kv_val := strdup (strdup_val al) v\<rparr>])\<rparr>)"

text \<open>
  The named section does not exist: \<^verbatim>\<open>d->sorted = 0\<close>, growth of the section array when
  it is full, then \<^verbatim>\<open>de = &d->entries[d->n++]\<close> with its name and hash. The result is the
  return code of the growth, the dictionary and the new pointer.
\<close>

definition new_entry ::
  "alloc \<Rightarrow> dictionary \<Rightarrow> string \<Rightarrow> fault + (int \<times> dictionary \<times> deref option)" where
  "new_entry al d dup =
     (let d1 = d\<lparr>d_sorted := False\<rparr> in
      case (if d_n d1 = d_len d1 then dictionary_grow (grow_dictionary al) d1 else (0, d1)) of
        (r, d2) \<Rightarrow>
          if r \<noteq> 0 then Inr (- 1, d2, None)
          else
            (case d_entries d2 of
               None \<Rightarrow> Inl NullDeref
             | Some es \<Rightarrow>
                 (case at es (int (d_n d2)) of
                    Inl f \<Rightarrow> Inl f
                  | Inr e \<Rightarrow>
                      Inr (0,
                           d2\<lparr>d_entries :=
                                 Some (es[d_n d2 :=
                                            e\<lparr>de_name := strdup (strdup_name al) dup,
                                              de_hash := dictionary_hash (Some dup)\<rparr>]),
                               d_n := d_n d2 + 1\<rparr>,
                           Some (Entry (d_n d2))))))"

text \<open>
  The end of \<^verbatim>\<open>dictionary_set\<close>, from \<^verbatim>\<open>hash_last = de->hash\<close> on: the statics are set,
  the section is marked unsorted, the pair array grows when it is full, and the pair is
  written to \<^verbatim>\<open>de->kvlist[de->n++]\<close>. \<open>g\<close> are the statics as the search for the
  section left them.
\<close>

definition append_pair ::
  "alloc \<Rightarrow> statics \<Rightarrow> dictionary \<Rightarrow> deref option \<Rightarrow> string \<Rightarrow> string \<Rightarrow> hash_t \<Rightarrow>
     fault + (int \<times> statics \<times> dictionary)" where
  "append_pair al g d de key v hash =
     (case de of
        None \<Rightarrow> Inl NullDeref
      | Some p \<Rightarrow>
          (case deref_de g d p of
             Inl f \<Rightarrow> Inl f
           | Inr e0 \<Rightarrow>
               (let g1 = g\<lparr>de_last := Some p, hash_last := de_hash e0\<rparr>;
                    e1 = e0\<lparr>de_sorted := False\<rparr>
                in case (if de_n e1 = de_len e1 then dictentry_grow (grow_dictentry al) e1
                         else (0, e1)) of
                     (r, e2) \<Rightarrow>
                       if r \<noteq> 0 then Inr (- 1, store_out g1 p e2, store_de d p e2)
                       else
                         (case de_kvlist e2 of
                            None \<Rightarrow> Inl NullDeref
                          | Some kvs \<Rightarrow>
                              if de_n e2 < length kvs then
                                (let e3 = e2\<lparr>de_kvlist :=
                                                Some (kvs[de_n e2 :=
                                                            \<lparr>kv_key = strdup (strdup_key al) key,
                                                             kv_val = strdup (strdup_val al) v,
                                                             kv_hash = hash\<rparr>]),
                                              de_n := de_n e2 + 1\<rparr>
                                 in Inr (0, store_out g1 p e3, store_de d p e3))
                              else Inl OutOfBounds))))"

text \<open>
  The key was not found and there is a value: \<^verbatim>\<open>hash = dictionary_hash(key)\<close>, the
  section is created when the address names one that was not found (for an address
  without a colon \<^verbatim>\<open>de = d->noname\<close> again), and the pair is appended. \<open>g1\<close> are the
  statics as the search for the section left them.
\<close>

definition add_value ::
  "alloc \<Rightarrow> statics \<Rightarrow> dictionary \<Rightarrow> string \<Rightarrow> string option \<Rightarrow> deref option \<Rightarrow> string \<Rightarrow> string \<Rightarrow>
     fault + (int \<times> statics \<times> dictionary option)" where
  "add_value al g1 d dup delim de key v =
     (let hash = dictionary_hash (Some key) in
      case (if de = None
            then (case delim of
                    Some k \<Rightarrow> new_entry al d dup
                  | None \<Rightarrow> Inr (0, d, noname_ptr d))
            else Inr (0, d, de)) of
        Inl f \<Rightarrow> Inl f
      | Inr (r, d2, de2) \<Rightarrow>
          if r \<noteq> 0 then Inr (- 1, g1, Some d2)
          else
            map_sum id (\<lambda>(r, g2, d3). (r, g2, Some d3))
              (append_pair al g1 d2 de2 key v hash))"

text \<open>
  \<^verbatim>\<open>dictionary_set\<close> after the removal of a whole section has been ruled out: \<open>dup\<close> is
  the text before the colon, \<open>delim\<close> the text after it.
\<close>

definition set_key ::
  "alloc \<Rightarrow> statics \<Rightarrow> dictionary \<Rightarrow> string \<Rightarrow> string option \<Rightarrow> string option \<Rightarrow>
     fault + (int \<times> statics \<times> dictionary option)" where
  "set_key al g d dup delim val =
     (let key = (case delim of None \<Rightarrow> dup | Some k \<Rightarrow> k) in
      case find_section g (Some d) dup delim of
        Inl f \<Rightarrow> Inl f
      | Inr (de, g1) \<Rightarrow>
          (case lookup_pair g1 d de key of
             Inl f \<Rightarrow> Inl f
           | Inr (Some (p, e, kvs, i)) \<Rightarrow>
               (let e1 = found_pair al e kvs i val
                in Inr (0, store_out g1 p e1, Some (store_de d p e1)))
           | Inr None \<Rightarrow>
               (case val of
                  None \<Rightarrow> Inr (0, g1, Some d)
                | Some v \<Rightarrow> add_value al g1 d dup delim de key v)))"

text \<open>
  \<^verbatim>\<open>dictionary_set\<close>. After the test of its two pointers it copies the address with
  \<^verbatim>\<open>strdup\<close> and passes the copy, untested, to \<^verbatim>\<open>strchr\<close>.
\<close>

definition dictionary_set ::
  "alloc \<Rightarrow> statics \<Rightarrow> dictionary option \<Rightarrow> string option \<Rightarrow> string option \<Rightarrow>
     fault + (int \<times> statics \<times> dictionary option)" where
  "dictionary_set al g d key val =
     (case d of
        None \<Rightarrow> Inr (- 1, g, d)
      | Some dd \<Rightarrow>
          (case key of
             None \<Rightarrow> Inr (- 1, g, d)
           | Some a \<Rightarrow>
               (case strdup (strdup_address al) a of
                  None \<Rightarrow> Inl NullDeref
                | Some cp \<Rightarrow>
                    (case split_colon cp of
                       (dup, delim) \<Rightarrow>
                         (case (if delim = None \<and> val = None
                                then dictentry_find g d (Some dup)
                                else Inr (None, g)) of
                            Inl f \<Rightarrow> Inl f
                          | Inr (None, g1) \<Rightarrow> set_key al g1 dd dup delim val
                          | Inr (Some p, g1) \<Rightarrow>
                              (case deref_de g1 dd p of
                                 Inl f \<Rightarrow> Inl f
                               | Inr e \<Rightarrow>
                                   (case dictentry_del e of
                                      Inl f \<Rightarrow> Inl f
                                    | Inr u \<Rightarrow>
                                        Inr (0, store_out g1 p zero_dictentry,
                                             Some ((store_de dd p zero_dictentry)
                                                     \<lparr>d_sorted := False\<rparr>)))))))))"

subsection \<open>Dumping\<close>

text \<open>
  The sink is the text written so far. \<^verbatim>\<open>%-30s\<close> pads the key with blanks to 30
  characters. Printing a \<^verbatim>\<open>NULL\<close> string with \<^verbatim>\<open>%s\<close> is a fault.
\<close>

definition pad30 :: "string \<Rightarrow> string" where
  "pad30 s = s @ replicate (30 - length s) CHR '' ''"

fun dump_pairs :: "keyval list \<Rightarrow> string \<Rightarrow> fault + string" where
  "dump_pairs [] out = Inr out"
| "dump_pairs (kv # kvs) out =
     (case kv_key kv of
        None \<Rightarrow> dump_pairs kvs out
      | Some k \<Rightarrow>
          (case kv_val kv of
             None \<Rightarrow> Inl NullDeref
           | Some v \<Rightarrow> dump_pairs kvs (out @ pad30 k @ '' = '' @ v @ [CHR 0x0A])))"

text \<open>
  \<^verbatim>\<open>dictentry_dump\<close>, called with a sink that is not \<^verbatim>\<open>NULL\<close> (the callers have tested
  it): the first \<^verbatim>\<open>n\<close> slots, those with a key.
\<close>

definition dictentry_dump :: "dictentry option \<Rightarrow> string \<Rightarrow> fault + string" where
  "dictentry_dump de out =
     (case de of
        None \<Rightarrow> Inr out
      | Some e \<Rightarrow>
          (case de_kvlist e of
             None \<Rightarrow> Inr out
           | Some kvs \<Rightarrow>
               if de_n e = 0 then Inr out
               else
                 (case dump_pairs (take (de_n e) kvs) out of
                    Inl f \<Rightarrow> Inl f
                  | Inr out1 \<Rightarrow> if de_n e \<le> length kvs then Inr out1 else Inl OutOfBounds)))"

fun dump_sections :: "dictentry list \<Rightarrow> string \<Rightarrow> fault + string" where
  "dump_sections [] out = Inr out"
| "dump_sections (e # es) out =
     (if de_n e = 0 then dump_sections es out
      else
        (case de_name e of
           None \<Rightarrow> Inl NullDeref
         | Some nm \<Rightarrow>
             (case dictentry_dump (Some e) (out @ [CHR 0x0A] @ ''['' @ nm @ '']'' @ [CHR 0x0A]) of
                Inl f \<Rightarrow> Inl f
              | Inr out1 \<Rightarrow> dump_sections es out1)))"

text \<open>\<^verbatim>\<open>dictionary_dump\<close> returns its code and the sink.\<close>

definition dictionary_dump ::
  "dictionary option \<Rightarrow> string option \<Rightarrow> fault + (dicterr_t \<times> string option)" where
  "dictionary_dump d out =
     (case d of
        None \<Rightarrow> Inr (DERR_BADDATA, out)
      | Some dd \<Rightarrow>
          (case out of
             None \<Rightarrow> Inr (DERR_BADDATA, out)
           | Some txt \<Rightarrow>
               if d_n dd < 1 then Inr (DERR_EMPTY, out)
               else
                 (case dictentry_dump (d_noname dd) txt of
                    Inl f \<Rightarrow> Inl f
                  | Inr out1 \<Rightarrow>
                      (case d_entries dd of
                         None \<Rightarrow> Inl NullDeref
                       | Some es \<Rightarrow>
                           (case dump_sections (take (d_n dd) es) out1 of
                              Inl f \<Rightarrow> Inl f
                            | Inr out2 \<Rightarrow>
                                if d_n dd \<le> length es then Inr (DERR_OK, Some out2)
                                else Inl OutOfBounds)))))"

subsection \<open>Sorting\<close>

text \<open>
  \<^verbatim>\<open>qsort\<close> belongs to the C library. It is modelled by an insertion sort over the first
  \<^verbatim>\<open>nmemb\<close> slots, driven by the comparison function; elements that compare equal keep
  their order (C leaves their order open).
\<close>

fun qsort_insert :: "('a \<Rightarrow> 'a \<Rightarrow> int) \<Rightarrow> 'a \<Rightarrow> 'a list \<Rightarrow> 'a list" where
  "qsort_insert cmp x [] = [x]"
| "qsort_insert cmp x (y # ys) =
     (if cmp x y \<le> 0 then x # y # ys else y # qsort_insert cmp x ys)"

definition qsort :: "('a \<Rightarrow> 'a \<Rightarrow> int) \<Rightarrow> 'a list \<Rightarrow> nat \<Rightarrow> fault + 'a list" where
  "qsort cmp base nmemb =
     (if nmemb \<le> length base
      then Inr (foldr (qsort_insert cmp) (take nmemb base) [] @ drop nmemb base)
      else Inl OutOfBounds)"

definition cmpvals :: "keyval \<Rightarrow> keyval \<Rightarrow> int" where
  "cmpvals p1 p2 =
     (let h1 = kv_hash p1; h2 = kv_hash p2
      in if h1 < h2 then - 1 else if h1 > h2 then 1 else 0)"

definition cmpentries :: "dictentry \<Rightarrow> dictentry \<Rightarrow> int" where
  "cmpentries p1 p2 =
     (let h1 = de_hash p1; h2 = de_hash p2
      in if h1 < h2 then - 1 else if h1 > h2 then 1 else 0)"

definition cmpvalnm :: "keyval \<Rightarrow> keyval \<Rightarrow> int" where
  "cmpvalnm p1 p2 =
     (case (kv_key p1, kv_key p2) of
        (Some ch1, Some ch2) \<Rightarrow> strcmp ch1 ch2
      | _ \<Rightarrow> 0)"

definition cmpentrienm :: "dictentry \<Rightarrow> dictentry \<Rightarrow> int" where
  "cmpentrienm p1 p2 =
     (case (de_name p1, de_name p2) of
        (Some ch1, Some ch2) \<Rightarrow> strcmp ch1 ch2
      | _ \<Rightarrow> 0)"

text \<open>The two section sorts, on a section that exists.\<close>

definition dictentry_sort :: "dictentry \<Rightarrow> fault + dictentry" where
  "dictentry_sort de =
     (if de_n de = 0 then Inr de
      else if de_sorted de then Inr de
      else
        (case de_kvlist de of
           None \<Rightarrow> Inl NullDeref
         | Some kvs \<Rightarrow>
             map_sum id (\<lambda>kvs1. de\<lparr>de_kvlist := Some kvs1, de_sorted := True\<rparr>)
               (qsort cmpvals kvs (de_n de))))"

definition dictentry_sort_nm :: "dictentry \<Rightarrow> fault + dictentry" where
  "dictentry_sort_nm de =
     (if de_n de = 0 then Inr de
      else
        (case de_kvlist de of
           None \<Rightarrow> Inl NullDeref
         | Some kvs \<Rightarrow>
             map_sum id (\<lambda>kvs1. de\<lparr>de_kvlist := Some kvs1\<rparr>) (qsort cmpvalnm kvs (de_n de))))"

fun map_fault :: "('a \<Rightarrow> fault + 'b) \<Rightarrow> 'a list \<Rightarrow> fault + 'b list" where
  "map_fault f [] = Inr []"
| "map_fault f (x # xs) =
     (case f x of
        Inl e \<Rightarrow> Inl e
      | Inr y \<Rightarrow> map_sum id (\<lambda>ys. y # ys) (map_fault f xs))"

text \<open>
  The whole-dictionary sorts: the unnamed section when it exists, the first \<^verbatim>\<open>d->n\<close>
  sections one by one, then the section array. \<open>one\<close> is the section sort, \<open>cmp\<close>
  the comparison of sections.
\<close>

definition sort_all ::
  "(dictentry \<Rightarrow> fault + dictentry) \<Rightarrow> (dictentry \<Rightarrow> dictentry \<Rightarrow> int) \<Rightarrow> dictionary \<Rightarrow>
     fault + dictionary" where
  "sort_all one cmp d =
     (case (case d_noname d of
              None \<Rightarrow> Inr None
            | Some e \<Rightarrow> map_sum id Some (one e)) of
        Inl f \<Rightarrow> Inl f
      | Inr nn \<Rightarrow>
          (case d_entries d of
             None \<Rightarrow> if d_n d = 0 then Inr (d\<lparr>d_noname := nn\<rparr>) else Inl NullDeref
           | Some es \<Rightarrow>
               if d_n d \<le> length es then
                 (case map_fault one (take (d_n d) es) of
                    Inl f \<Rightarrow> Inl f
                  | Inr es1 \<Rightarrow>
                      map_sum id (\<lambda>es2. d\<lparr>d_noname := nn, d_entries := Some es2\<rparr>)
                        (qsort cmp (es1 @ drop (d_n d) es) (d_n d)))
               else Inl OutOfBounds))"

definition dictionary_sort_hash :: "dictionary option \<Rightarrow> fault + dictionary option" where
  "dictionary_sort_hash d =
     (case d of
        None \<Rightarrow> Inr None
      | Some dd \<Rightarrow> map_sum id (\<lambda>d1. Some (d1\<lparr>d_sorted := True\<rparr>)) (sort_all dictentry_sort cmpentries dd))"

definition dictionary_sort :: "dictionary option \<Rightarrow> fault + dictionary option" where
  "dictionary_sort d =
     (case d of
        None \<Rightarrow> Inr None
      | Some dd \<Rightarrow> map_sum id Some (sort_all dictentry_sort_nm cmpentrienm dd))"

subsection \<open>A client\<close>

text \<open>
  Sequences of calls on one dictionary, as the example programs make them: the calls, what
  each returns, and the statics and the dictionary they leave. \<open>fresh\<close> is the state after
  a \<^verbatim>\<open>dictionary_new(0)\<close> whose allocations succeed, before any lookup. A
  \<^verbatim>\<open>dictentry_find\<close> returns the pointer and the name read through it; a dump starts
  with an empty sink.
\<close>

datatype call =
  Call_set alloc "string option" "string option"
| Call_get "string option" "string option"
| Call_find "string option"
| Call_sort_hash
| Call_sort
| Call_dump

datatype returned =
  Ret int
| Val "string option"
| Found "deref option" "string option"
| Done
| Dumped dicterr_t "string option"

type_synonym world = "statics \<times> dictionary option"

definition fresh :: world where
  "fresh = (statics_init, dictionary_new True True True True 0)"

definition call_step :: "call \<Rightarrow> world \<Rightarrow> fault + (returned \<times> world)" where
  "call_step c w =
     (case w of
        (g, d) \<Rightarrow>
          (case c of
             Call_set al key val \<Rightarrow>
               map_sum id (\<lambda>(r, g1, d1). (Ret r, (g1, d1))) (dictionary_set al g d key val)
           | Call_get key def \<Rightarrow>
               map_sum id (\<lambda>(v, g1). (Val v, (g1, d))) (dictionary_get g d key def)
           | Call_find key \<Rightarrow>
               (case dictentry_find g d key of
                  Inl f \<Rightarrow> Inl f
                | Inr (None, g1) \<Rightarrow> Inr (Found None None, (g1, d))
                | Inr (Some p, g1) \<Rightarrow>
                    (case d of
                       None \<Rightarrow> Inl NullDeref
                     | Some dd \<Rightarrow>
                         map_sum id (\<lambda>e. (Found (Some p) (de_name e), (g1, d))) (deref_de g1 dd p)))
           | Call_sort_hash \<Rightarrow> map_sum id (\<lambda>d1. (Done, (g, d1))) (dictionary_sort_hash d)
           | Call_sort \<Rightarrow> map_sum id (\<lambda>d1. (Done, (g, d1))) (dictionary_sort d)
           | Call_dump \<Rightarrow>
               map_sum id (\<lambda>(r, out). (Dumped r out, (g, d))) (dictionary_dump d (Some []))))"

fun calls :: "call list \<Rightarrow> world \<Rightarrow> fault + (returned list \<times> world)" where
  "calls [] w = Inr ([], w)"
| "calls (c # cs) w =
     (case call_step c w of
        Inl f \<Rightarrow> Inl f
      | Inr (r, w1) \<Rightarrow> map_sum id (\<lambda>(rs, w2). (r # rs, w2)) (calls cs w1))"

text \<open>
  An allocator that succeeds and hands out zeroed slots, and one whose \<^verbatim>\<open>realloc\<close>
  fails while its \<^verbatim>\<open>strdup\<close> succeeds.
\<close>

definition alloc_ok :: alloc where
  "alloc_ok =
     \<lparr>strdup_address = True, strdup_val = True, grow_dictionary = Some (\<lambda>i. zero_dictentry),
      strdup_name = True, grow_dictentry = Some (\<lambda>i. zero_keyval), strdup_key = True\<rparr>"

definition alloc_fail :: alloc where
  "alloc_fail =
     \<lparr>strdup_address = True, strdup_val = True, grow_dictionary = None,
      strdup_name = True, grow_dictentry = None, strdup_key = True\<rparr>"

text \<open>The dictionary that \<^verbatim>\<open>dictionary_new(0)\<close> returns when its allocations succeed.\<close>

definition new_dictionary :: dictionary where
  "new_dictionary = the (dictionary_new True True True True 0)"

text \<open>
  The new dictionary after \<^verbatim>\<open>dictionary_set(d, "s:k", "1")\<close>, and after
  \<^verbatim>\<open>dictionary_set(d, "k", "1")\<close>, with the statics these calls leave.
\<close>

definition pair_k_1 :: keyval where
  "pair_k_1 = \<lparr>kv_key = Some ''k'', kv_val = Some ''1'', kv_hash = dictionary_hash (Some ''k'')\<rparr>"

definition section_s :: dictentry where
  "section_s =
     \<lparr>de_n = 1, de_len = 10, de_kvlist = Some (pair_k_1 # replicate 9 zero_keyval),
      de_sorted = False, de_name = Some ''s'', de_hash = dictionary_hash (Some ''s'')\<rparr>"

definition dict_s_k :: dictionary where
  "dict_s_k = new_dictionary\<lparr>d_n := 1, d_entries := Some (section_s # replicate 4 zero_dictentry)\<rparr>"

definition statics_s :: statics where
  "statics_s =
     \<lparr>de_last = Some (Entry 0), hash_last = dictionary_hash (Some ''s''), outside = []\<rparr>"

definition unnamed_k :: dictentry where
  "unnamed_k =
     \<lparr>de_n = 1, de_len = 10, de_kvlist = Some (pair_k_1 # replicate 9 zero_keyval),
      de_sorted = False, de_name = None, de_hash = 0\<rparr>"

definition dict_k :: dictionary where
  "dict_k = new_dictionary\<lparr>d_noname := Some unnamed_k\<rparr>"

definition statics_noname :: statics where
  "statics_noname = \<lparr>de_last = Some Noname, hash_last = 0, outside = []\<rparr>"

text \<open>
  The new dictionary after \<^verbatim>\<open>dictionary_set(d, "a:k", "1")\<close>, ...,
  \<^verbatim>\<open>dictionary_set(d, "e:k", "1")\<close>, whose section array is full, and after
  \<^verbatim>\<open>dictionary_set(d, "k0", "1")\<close>, ..., \<^verbatim>\<open>dictionary_set(d, "k9", "1")\<close>, whose
  unnamed section is full, with the statics these calls leave.
\<close>

definition section_named :: "string \<Rightarrow> dictentry" where
  "section_named nm =
     \<lparr>de_n = 1, de_len = 10, de_kvlist = Some (pair_k_1 # replicate 9 zero_keyval),
      de_sorted = False, de_name = Some nm, de_hash = dictionary_hash (Some nm)\<rparr>"

definition dict_full :: dictionary where
  "dict_full =
     new_dictionary\<lparr>d_n := 5,
                      d_entries := Some (map section_named [''a'', ''b'', ''c'', ''d'', ''e''])\<rparr>"

definition statics_full :: statics where
  "statics_full =
     \<lparr>de_last = Some (Entry 4), hash_last = dictionary_hash (Some ''e''), outside = []\<rparr>"

definition pairs_full :: "keyval list" where
  "pairs_full =
     map (\<lambda>k. \<lparr>kv_key = Some k, kv_val = Some ''1'', kv_hash = dictionary_hash (Some k)\<rparr>)
       [''k0'', ''k1'', ''k2'', ''k3'', ''k4'', ''k5'', ''k6'', ''k7'', ''k8'', ''k9'']"

definition unnamed_full :: dictentry where
  "unnamed_full =
     \<lparr>de_n = 10, de_len = 10, de_kvlist = Some pairs_full, de_sorted = False, de_name = None,
      de_hash = 0\<rparr>"

definition dict_unnamed_full :: dictionary where
  "dict_unnamed_full = new_dictionary\<lparr>d_noname := Some unnamed_full\<rparr>"

text \<open>
  The section \<^verbatim>\<open>s\<close> without pairs that \<^verbatim>\<open>dictionary_set(d, "s:k", "v")\<close> leaves in a
  new dictionary when the pair array cannot grow, and the statics after such a call on
  another dictionary: \<^verbatim>\<open>de_last\<close> points to that section of the other dictionary.
\<close>

definition section_s_empty :: dictentry where
  "section_s_empty =
     zero_dictentry\<lparr>de_name := Some ''s'', de_hash := dictionary_hash (Some ''s'')\<rparr>"

definition dict_s_empty :: dictionary where
  "dict_s_empty =
     new_dictionary\<lparr>d_n := 1, d_entries := Some (section_s_empty # replicate 4 zero_dictentry)\<rparr>"

definition statics_other :: statics where
  "statics_other =
     \<lparr>de_last = Some (Other 0), hash_last = dictionary_hash (Some ''s''),
      outside = [Some section_s_empty]\<rparr>"

text \<open>What a sequence of calls returns, starting from the fresh dictionary.\<close>

definition returns :: "call list \<Rightarrow> fault + returned list" where
  "returns cs = map_sum id fst (calls cs fresh)"

text \<open>
  The same, with the section count, the capacity of the section array and the
  \<^verbatim>\<open>sorted\<close> flag of the dictionary the calls leave.
\<close>

definition counts :: "call list \<Rightarrow> fault + (returned list \<times> (nat \<times> nat \<times> bool) option)" where
  "counts cs =
     map_sum id (\<lambda>(rs, g, d). (rs, map_option (\<lambda>dd. (d_n dd, d_len dd, d_sorted dd)) d))
       (calls cs fresh)"

abbreviation set_to :: "string \<Rightarrow> string \<Rightarrow> call" where
  "set_to a v \<equiv> Call_set alloc_ok (Some a) (Some v)"

abbreviation remove :: "string \<Rightarrow> call" where
  "remove a \<equiv> Call_set alloc_ok (Some a) None"

abbreviation get_or :: "string \<Rightarrow> string \<Rightarrow> call" where
  "get_or a def \<equiv> Call_get (Some a) (Some def)"

subsection \<open>Notions used by the claims\<close>

text \<open>The key part of an address: the text after the first colon, or the whole address.\<close>

definition address_key :: "string \<Rightarrow> string" where
  "address_key a = (case split_colon a of (dup, delim) \<Rightarrow> (case delim of None \<Rightarrow> dup | Some k \<Rightarrow> k))"

section \<open>Properties of the lookups and of \<^verbatim>\<open>dictionary_set\<close>\<close>

subsection \<open>What a successful search returns\<close>

declare linear_find.simps [simp del] goto_first.simps [simp del] scan_cluster.simps [simp del]
  binary_find.simps [simp del]

lemma at_Inr: "at xs i = Inr x \<Longrightarrow> 0 \<le> i \<and> nat i < length xs \<and> x = xs ! nat i"
  by (auto simp: at_def split: if_splits)

lemma linear_find_sound:
  "linear_find xs key hash L i = Inr (Some m) \<Longrightarrow>
     int m < L \<and> m < length xs \<and> xs ! m = (hash, Some key)"
proof (induction xs key hash L i rule: linear_find.induct)
  case (1 xs key hash L i)
  show ?case
  proof (cases "i < L")
    case False
    with "1.prems" show ?thesis by (subst (asm) linear_find.simps) simp
  next
    case True
    from "1.prems" True obtain h s where a: "at xs i = Inr (h, s)"
      by (subst (asm) linear_find.simps) (auto split: sum.splits)
    note r = at_Inr [OF a]
    show ?thesis
    proof (cases "h = hash")
      case False
      with "1.prems" True a have "linear_find xs key hash L (i + 1) = Inr (Some m)"
        by (subst (asm) linear_find.simps) simp
      with "1.IH"(2) [OF True a refl False] show ?thesis by simp
    next
      case h: True
      from "1.prems" True a h obtain eq where e: "streq key s = Inr eq"
        by (subst (asm) linear_find.simps) (auto split: sum.splits)
      show ?thesis
      proof (cases eq)
        case True
        with "1.prems" \<open>i < L\<close> a h e have "m = nat i"
          by (subst (asm) linear_find.simps) simp
        moreover from e True have "s = Some key" by (auto simp: streq_def split: option.splits)
        ultimately show ?thesis using r h \<open>i < L\<close> by auto
      next
        case False
        with "1.prems" \<open>i < L\<close> a h e have "linear_find xs key hash L (i + 1) = Inr (Some m)"
          by (subst (asm) linear_find.simps) simp
        with "1.IH"(1) [OF \<open>i < L\<close> a refl h e False] show ?thesis by simp
      qed
    qed
  qed
qed

lemma scan_cluster_sound:
  "scan_cluster xs key hash L i = Inr (Some m) \<Longrightarrow>
     int m \<le> L \<and> m < length xs \<and> xs ! m = (hash, Some key)"
proof (induction xs key hash L i rule: scan_cluster.induct)
  case (1 xs key hash L i)
  from "1.prems" have lt: "i < L"
    by (subst (asm) scan_cluster.simps) (simp split: if_splits)
  from "1.prems" lt obtain h s where a: "at xs (i + 1) = Inr (h, s)"
    by (subst (asm) scan_cluster.simps) (auto split: sum.splits)
  note r = at_Inr [OF a]
  from "1.prems" lt a have h: "h = hash"
    by (subst (asm) scan_cluster.simps) (simp split: if_splits)
  from "1.prems" lt a h obtain eq where e: "streq key s = Inr eq"
    by (subst (asm) scan_cluster.simps) (auto split: sum.splits)
  show ?case
  proof (cases eq)
    case True
    with "1.prems" lt a h e have "m = nat (i + 1)"
      by (subst (asm) scan_cluster.simps) simp
    moreover from e True have "s = Some key" by (auto simp: streq_def split: option.splits)
    ultimately show ?thesis using r h lt by auto
  next
    case False
    with "1.prems" lt a h e have "scan_cluster xs key hash L (i + 1) = Inr (Some m)"
      by (subst (asm) scan_cluster.simps) simp
    with "1.IH" [OF lt a refl h e False] show ?thesis by simp
  qed
qed

lemma binary_find_sound:
  "binary_find xs key hash L down up = Inr (Some m) \<Longrightarrow> up < L \<Longrightarrow>
     int m < L \<and> m < length xs \<and> xs ! m = (hash, Some key)"
proof (induction xs key hash L down up rule: binary_find.induct)
  case (1 xs key hash L down up)
  define i where "i = (up + down) div 2"
  from "1.prems" have le: "down \<le> up"
    by (subst (asm) binary_find.simps) (simp split: if_splits)
  then have iu: "i \<le> up" by (simp add: i_def)
  from "1.prems" le obtain h s where a: "at xs i = Inr (h, s)"
    by (subst (asm) binary_find.simps) (auto simp: Let_def i_def split: sum.splits)
  note r = at_Inr [OF a]
  show ?case
  proof (cases "h = hash")
    case h: True
    from "1.prems" le a h obtain eq where e: "streq key s = Inr eq"
      by (subst (asm) binary_find.simps) (auto simp: Let_def i_def split: sum.splits)
    show ?thesis
    proof (cases eq)
      case True
      with "1.prems" le a h e have "m = nat i"
        by (subst (asm) binary_find.simps) (simp add: Let_def i_def)
      moreover from e True have "s = Some key" by (auto simp: streq_def split: option.splits)
      ultimately show ?thesis using r h iu "1.prems"(2) by auto
    next
      case False
      with "1.prems" le a h e obtain j where
        "scan_cluster xs key hash (L - 1) j = Inr (Some m)"
        by (subst (asm) binary_find.simps) (auto simp: Let_def i_def split: sum.splits)
      from scan_cluster_sound [OF this] show ?thesis by simp
    qed
  next
    case nh: False
    show ?thesis
    proof (cases "h < hash")
      case True
      with "1.prems" le a nh have "binary_find xs key hash L (i + 1) up = Inr (Some m)"
        by (subst (asm) binary_find.simps) (simp add: Let_def i_def)
      with "1.IH"(1) [OF le i_def a refl nh True] "1.prems"(2) show ?thesis by simp
    next
      case False
      with "1.prems" le a nh have "binary_find xs key hash L down (i - 1) = Inr (Some m)"
        by (subst (asm) binary_find.simps) (simp add: Let_def i_def)
      with "1.IH"(2) [OF le i_def a refl nh False] "1.prems"(2) iu show ?thesis by simp
    qed
  qed
qed

lemma keyval_find_sound:
  assumes "keyval_find (Some e) (Some key) = Inr (Some i)"
  shows "\<exists>kvs. de_kvlist e = Some kvs \<and> i < de_n e \<and> i < length kvs \<and>
           kv_key (kvs ! i) = Some key \<and> kv_hash (kvs ! i) = dictionary_hash (Some key)"
proof -
  from assms obtain kvs where kvs: "de_kvlist e = Some kvs"
    by (auto simp: keyval_find_def Let_def split: option.splits)
  let ?xs = "map keyval_probe kvs"
  have "int i < int (de_n e) \<and> i < length ?xs \<and> ?xs ! i = (dictionary_hash (Some key), Some key)"
  proof (cases "de_sorted e")
    case True
    with assms kvs have
      "binary_find ?xs key (dictionary_hash (Some key)) (int (de_n e)) 0 (int (de_n e) - 1)
         = Inr (Some i)"
      by (simp add: keyval_find_def Let_def)
    from binary_find_sound [OF this] show ?thesis by simp
  next
    case False
    with assms kvs have
      "linear_find ?xs key (dictionary_hash (Some key)) (int (de_n e)) 0 = Inr (Some i)"
      by (simp add: keyval_find_def Let_def)
    from linear_find_sound [OF this] show ?thesis by simp
  qed
  with kvs show ?thesis by (auto simp: keyval_probe_def)
qed

lemma dictentry_find_Some:
  assumes "dictentry_find g (Some d) (Some k) = Inr (Some p, g1)"
  shows "hash_last g1 = dictionary_hash (Some k) \<and> de_last g1 = Some p \<and> d_entries d \<noteq> None"
proof -
  from assms obtain elist where el: "d_entries d = Some elist"
    by (auto simp: dictentry_find_def split: option.splits)
  let ?h = "dictionary_hash (Some k)"
  let ?xs = "map entry_probe elist"
  show ?thesis
  proof (cases "hash_last g = ?h")
    case True
    with assms el show ?thesis by (auto simp: dictentry_find_def)
  next
    case False
    let ?r = "if d_sorted d then binary_find ?xs k ?h (int (d_n d)) 0 (int (d_n d) - 1)
              else linear_find ?xs k ?h (int (d_n d)) 0"
    from assms el False obtain i where r: "?r = Inr (Some i)"
      and p: "p = Entry i" and g1: "g1 = g\<lparr>de_last := Some (Entry i), hash_last := de_hash (elist ! i)\<rparr>"
      by (auto simp: dictentry_find_def Let_def split: sum.splits option.splits if_splits)
    have "i < length ?xs \<and> ?xs ! i = (?h, Some k)"
    proof (cases "d_sorted d")
      case True
      with r binary_find_sound [of ?xs k ?h "int (d_n d)" 0 "int (d_n d) - 1" i]
      show ?thesis by simp
    next
      case False
      with r linear_find_sound [of ?xs k ?h "int (d_n d)" 0 i] show ?thesis by simp
    qed
    then have "de_hash (elist ! i) = ?h" by (auto simp: entry_probe_def)
    with p g1 el show ?thesis by simp
  qed
qed

lemma dictentry_find_None:
  "dictentry_find g d k = Inr (None, g1) \<Longrightarrow> g1 = g"
  by (auto simp: dictentry_find_def Let_def split: option.splits sum.splits if_splits)

lemma dictentry_find_cached:
  "hash_last g = dictionary_hash (Some k) \<Longrightarrow> d_entries d \<noteq> None \<Longrightarrow>
     dictentry_find g (Some d) (Some k) = Inr (de_last g, g)"
  by (auto simp: dictentry_find_def)

subsection \<open>Reading after writing\<close>

lemma deref_store_same:
  "deref_de g d p = Inr e \<Longrightarrow> deref_de (store_out g p e') (store_de d p e') p = Inr e'"
  by (auto simp: deref_de_def store_de_def store_out_def at_def
      split: deref.splits option.splits if_splits)

lemma deref_de_sorted [simp]: "deref_de g (d\<lparr>d_sorted := b\<rparr>) p = deref_de g d p"
  by (simp add: deref_de_def split: deref.splits)

lemma store_de_n [simp]: "d_n (store_de d p e) = d_n d"
  by (simp add: store_de_def split: deref.splits)

lemma store_out_statics [simp]:
  "de_last (store_out g p e) = de_last g" "hash_last (store_out g p e) = hash_last g"
  by (simp_all add: store_out_def split: deref.splits)

lemma lookup_pair_Some:
  assumes "lookup_pair g d de key = Inr (Some (p, e, kvs, i))"
  shows "de = Some p \<and> deref_de g d p = Inr e \<and> de_kvlist e = Some kvs \<and> i < de_n e \<and>
         i < length kvs \<and> kv_key (kvs ! i) = Some key \<and>
         kv_hash (kvs ! i) = dictionary_hash (Some key)"
proof -
  from assms have a: "de = Some p" "deref_de g d p = Inr e" "de_kvlist e = Some kvs"
    and k: "keyval_find (Some e) (Some key) = Inr (Some i)"
    by (auto simp: lookup_pair_def split: option.splits sum.splits)
  from keyval_find_sound [OF k] a show ?thesis by auto
qed

subsection \<open>The parts of \<^verbatim>\<open>dictionary_set\<close> and \<^verbatim>\<open>dictionary_get\<close>\<close>

lemma dictionary_set_key:
  assumes "split_colon a = (dup, delim)" and "strdup_address al"
    and "delim = None \<and> val = None \<longrightarrow> dictentry_find g (Some d) (Some dup) = Inr (None, g)"
  shows "dictionary_set al g (Some d) (Some a) val = set_key al g d dup delim val"
  using assms by (auto simp: dictionary_set_def strdup_def)

lemma dictionary_get_lookup:
  assumes "split_colon a = (dup, delim)"
    and "find_section g (Some d) dup delim = Inr (de, g1)"
    and "lookup_pair g1 d de (case delim of Some k \<Rightarrow> k | None \<Rightarrow> dup) = Inr r"
  shows "dictionary_get g (Some d) (Some a) def
           = Inr (case r of None \<Rightarrow> def | Some (p, e, kvs, i) \<Rightarrow> kv_val (kvs ! i), g1)"
  using assms
  by (auto simp: dictionary_get_def lookup_pair_def split: option.splits)

lemma address_key_split:
  "split_colon a = (dup, delim) \<Longrightarrow> address_key a = (case delim of Some k \<Rightarrow> k | None \<Rightarrow> dup)"
  by (simp add: address_key_def split: option.splits)

subsection \<open>Replacing a value and removing a section\<close>

text \<open>
  Replacing a value: when the lookup of the address finds a pair, \<^verbatim>\<open>dictionary_set\<close> with a
  value returns 0 and writes the value field of that pair, nothing else in the section.
\<close>

lemma replace_value_frame:
  assumes sp: "split_colon a = (dup, delim)" and cp: "strdup_address al"
    and fs: "find_section g (Some d) dup delim = Inr (de, g1)"
    and lk: "lookup_pair g1 d de (address_key a) = Inr (Some (p, e, kvs, i))"
    and e1: "e1 = e\<lparr>de_kvlist := Some (kvs[i := (kvs ! i)\<lparr>kv_val := strdup (strdup_val al) v\<rparr>])\<rparr>"
  shows "dictionary_set al g (Some d) (Some a) (Some v)
           = Inr (0, store_out g1 p e1, Some (store_de d p e1))"
    and "i < length kvs" and "kv_key (kvs ! i) = Some (address_key a)"
proof -
  have key: "address_key a = (case delim of Some k \<Rightarrow> k | None \<Rightarrow> dup)"
    by (rule address_key_split [OF sp])
  from fs lk e1 show "dictionary_set al g (Some d) (Some a) (Some v)
           = Inr (0, store_out g1 p e1, Some (store_de d p e1))"
    by (simp add: dictionary_set_key [OF sp cp] set_key_def key found_pair_def Let_def)
  from lookup_pair_Some [OF lk] show "i < length kvs" "kv_key (kvs ! i) = Some (address_key a)"
    by simp_all
qed

text \<open>
  Removing a section: when \<^verbatim>\<open>dictentry_find\<close> returns a section for an address without a
  colon, \<^verbatim>\<open>dictionary_set\<close> without a value returns 0, zeroes the slot returned, clears
  \<^verbatim>\<open>d->sorted\<close> and leaves the section count; a \<^verbatim>\<open>get\<close> of any key under that name
  then returns the default.
\<close>

lemma split_colon_bare: "CHR '':'' \<notin> set a \<Longrightarrow> split_colon a = (a, None)"
proof -
  assume "CHR '':'' \<notin> set a"
  then have t: "takeWhile (\<lambda>c. c \<noteq> CHR '':'') a = a"
    and d: "dropWhile (\<lambda>c. c \<noteq> CHR '':'') a = []"
    by (induction a) auto
  show ?thesis by (simp only: split_colon_def Let_def t d list.case)
qed

lemma split_colon_named: "CHR '':'' \<notin> set s \<Longrightarrow> split_colon (s @ CHR '':'' # k) = (s, Some k)"
proof -
  assume "CHR '':'' \<notin> set s"
  then have "takeWhile (\<lambda>c. c \<noteq> CHR '':'') (s @ CHR '':'' # k) = s \<and>
             dropWhile (\<lambda>c. c \<noteq> CHR '':'') (s @ CHR '':'' # k) = CHR '':'' # k"
    by (induction s) auto
  then show ?thesis by (simp add: split_colon_def)
qed

lemma remove_section_found:
  assumes nc: "CHR '':'' \<notin> set a" and cp: "strdup_address al"
    and f: "dictentry_find g (Some d) (Some a) = Inr (Some p, g1)"
    and dr: "deref_de g1 d p = Inr e" and del: "dictentry_del e = Inr ()"
    and g2: "g2 = store_out g1 p zero_dictentry"
    and d2: "d2 = (store_de d p zero_dictentry)\<lparr>d_sorted := False\<rparr>"
  shows "dictionary_set al g (Some d) (Some a) None = Inr (0, g2, Some d2)"
    and "d_n d2 = d_n d"
    and "dictionary_get g2 (Some d2) (Some (a @ CHR '':'' # key)) def = Inr (def, g2)"
proof -
  from f dr del cp show "dictionary_set al g (Some d) (Some a) None = Inr (0, g2, Some d2)"
    by (simp add: dictionary_set_def split_colon_bare [OF nc] strdup_def g2 d2)
  show "d_n d2 = d_n d" by (simp add: d2)
  from dictentry_find_Some [OF f] have c: "hash_last g1 = dictionary_hash (Some a)"
    "de_last g1 = Some p" "d_entries d \<noteq> None" by simp_all
  have e1: "d_entries d2 \<noteq> None" using c(3) by (simp add: d2 store_de_def split: deref.splits)
  have fs: "find_section g2 (Some d2) a (Some key) = Inr (Some p, g2)"
    using dictentry_find_cached [of g2 a d2] e1 c(1,2) by (simp add: find_section_def g2)
  have "deref_de g2 d2 p = Inr zero_dictentry"
    using deref_store_same [OF dr, of zero_dictentry] by (simp add: g2 d2)
  then have lk: "lookup_pair g2 d2 (Some p) key = Inr None"
    by (simp add: lookup_pair_def keyval_find_def zero_dictentry_def)
  from dictionary_get_lookup [OF split_colon_named [OF nc] fs, of None def] lk
  show "dictionary_get g2 (Some d2) (Some (a @ CHR '':'' # key)) def = Inr (def, g2)"
    by simp
qed

subsection \<open>When \<^verbatim>\<open>dictionary_set\<close> returns a code other than 0\<close>

lemma map_sum_id_Inr: "map_sum id f x = Inr y \<longleftrightarrow> (\<exists>z. x = Inr z \<and> y = f z)"
  by (cases x) auto

lemma append_pair_failure:
  assumes "append_pair al g d2 de key v hash = Inr (r, g', d3)" and "r \<noteq> 0"
  shows "\<exists>p e. de = Some p \<and> deref_de g d2 p = Inr e \<and> de_n e = de_len e \<and>
           grow_dictentry al = None"
  using assms
  by (auto simp: append_pair_def dictentry_grow_def Let_def
      split: option.splits sum.splits if_splits prod.splits)

lemma new_entry_failure:
  assumes "new_entry al d dup = Inr (r, d2, de2)" and "r \<noteq> 0"
  shows "d_n d = d_len d \<and> grow_dictionary al = None"
  using assms
  by (auto simp: new_entry_def dictionary_grow_def Let_def
      split: option.splits sum.splits if_splits prod.splits)

lemma new_entry_success:
  assumes "new_entry al d dup = Inr (0, d2, de2)"
  shows "\<exists>dg es e. (if d_n d = d_len d
              then dictionary_grow (grow_dictionary al) (d\<lparr>d_sorted := False\<rparr>)
              else (0, d\<lparr>d_sorted := False\<rparr>)) = (0, dg) \<and>
             d_entries dg = Some es \<and> at es (int (d_n d)) = Inr e \<and>
             de2 = Some (Entry (d_n d)) \<and>
             d2 = dg\<lparr>d_entries := Some (es[d_n d := e\<lparr>de_name := strdup (strdup_name al) dup,
                                                  de_hash := dictionary_hash (Some dup)\<rparr>]),
                           d_n := d_n d + 1\<rparr>"
  using assms
  by (auto simp: new_entry_def dictionary_grow_def Let_def
      split: option.splits sum.splits if_splits prod.splits)

lemma add_value_failure:
  assumes "add_value al g1 d dup delim de key v = Inr (r, g2, d2)" and "r \<noteq> 0"
    and nn: "delim = None \<Longrightarrow> de = noname_ptr d"
  shows "(delim \<noteq> None \<and> de = None \<and> d_n d = d_len d \<and> grow_dictionary al = None) \<or>
     (\<exists>p e. de = Some p \<and> deref_de g1 d p = Inr e \<and>
             de_n e = de_len e \<and> grow_dictentry al = None) \<or>
     (\<exists>dg es e. delim \<noteq> None \<and> de = None \<and>
             (if d_n d = d_len d
              then dictionary_grow (grow_dictionary al) (d\<lparr>d_sorted := False\<rparr>)
              else (0, d\<lparr>d_sorted := False\<rparr>)) = (0, dg) \<and>
             d_entries dg = Some es \<and> at es (int (d_n d)) = Inr e \<and>
             de_n e = de_len e \<and> grow_dictentry al = None)"
proof (cases de)
  case (Some p)
  with assms show ?thesis
    by (auto simp: add_value_def Let_def map_sum_id_Inr dest!: append_pair_failure)
next
  case None
  show ?thesis
  proof (cases delim)
    case dn: None
    with None assms(1,2) nn [OF dn] show ?thesis
      by (auto simp: add_value_def Let_def map_sum_id_Inr dest!: append_pair_failure)
  next
    case (Some k)
    from assms None Some obtain r0 d3 de3 where ne: "new_entry al d dup = Inr (r0, d3, de3)"
      by (auto simp: add_value_def Let_def split: sum.splits)
    show ?thesis
    proof (cases "r0 = 0")
      case False
      with new_entry_failure [OF ne] None Some show ?thesis by simp
    next
      case True
      with ne new_entry_success [of al d dup d3 de3] obtain dg es e where
        g: "(if d_n d = d_len d
              then dictionary_grow (grow_dictionary al) (d\<lparr>d_sorted := False\<rparr>)
              else (0, d\<lparr>d_sorted := False\<rparr>)) = (0, dg)"
        and es: "d_entries dg = Some es" "at es (int (d_n d)) = Inr e"
        and de3: "de3 = Some (Entry (d_n d))"
        and d3: "d3 = dg\<lparr>d_entries := Some (es[d_n d := e\<lparr>de_name := strdup (strdup_name al) dup,
                                                  de_hash := dictionary_hash (Some dup)\<rparr>]),
                           d_n := d_n d + 1\<rparr>"
        by blast
      from assms None Some ne True obtain g' d4 where
        ap: "append_pair al g1 d3 de3 key v (dictionary_hash (Some key)) = Inr (r, g', d4)"
        by (auto simp: add_value_def Let_def map_sum_id_Inr)
      from append_pair_failure [OF ap assms(2)] de3 obtain e' where
        e': "deref_de g1 d3 (Entry (d_n d)) = Inr e'" "de_n e' = de_len e'"
        and al: "grow_dictentry al = None"
        by auto
      from es(2) have lt: "d_n d < length es" by (auto dest: at_Inr)
      from e'(1) lt have "e' = e\<lparr>de_name := strdup (strdup_name al) dup,
                                  de_hash := dictionary_hash (Some dup)\<rparr>"
        by (simp add: d3 deref_de_def at_def)
      with e'(2) have "de_n e = de_len e" by simp
      with None Some g es al show ?thesis by blast
    qed
  qed
qed

lemma set_key_failure:
  assumes "set_key al g d dup delim val = Inr (r, g2, d2)" and "r \<noteq> 0"
    and fs: "find_section g (Some d) dup delim = Inr (de, g1)"
  shows "\<exists>v. val = Some v \<and>
           add_value al g1 d dup delim de (case delim of None \<Rightarrow> dup | Some k \<Rightarrow> k) v
             = Inr (r, g2, d2) \<and>
           lookup_pair g1 d de (case delim of None \<Rightarrow> dup | Some k \<Rightarrow> k) = Inr None"
  using assms
  by (auto simp: set_key_def Let_def split: sum.splits option.splits prod.splits)

lemma lookup_pair_None:
  "lookup_pair g d (Some p) key = Inr None \<Longrightarrow> deref_de g d p = Inr e \<Longrightarrow>
     keyval_find (Some e) (Some key) = Inr None"
  by (auto simp: lookup_pair_def split: sum.splits option.splits)

lemma dictionary_set_failure:
  assumes sp: "split_colon a = (dup, delim)"
    and fs: "find_section g (Some d) dup delim = Inr (de, g1)"
    and r: "dictionary_set al g (Some d) (Some a) val = Inr (r, g2, d2)" "r \<noteq> 0"
  shows "val \<noteq> None \<and>
    ((delim \<noteq> None \<and> de = None \<and> d_n d = d_len d \<and> grow_dictionary al = None) \<or>
     (\<exists>p e. de = Some p \<and> deref_de g1 d p = Inr e \<and>
             keyval_find (Some e) (Some (address_key a)) = Inr None \<and>
             de_n e = de_len e \<and> grow_dictentry al = None) \<or>
     (\<exists>dg es e. delim \<noteq> None \<and> de = None \<and>
             (if d_n d = d_len d
              then dictionary_grow (grow_dictionary al) (d\<lparr>d_sorted := False\<rparr>)
              else (0, d\<lparr>d_sorted := False\<rparr>)) = (0, dg) \<and>
             d_entries dg = Some es \<and> at es (int (d_n d)) = Inr e \<and>
             de_n e = de_len e \<and> grow_dictentry al = None))"
proof -
  let ?key = "case delim of None \<Rightarrow> dup | Some k \<Rightarrow> k"
  have key: "address_key a = ?key"
    by (simp add: address_key_split [OF sp] split: option.splits)
  from r sp have sk: "set_key al g d dup delim val = Inr (r, g2, d2)"
    by (auto simp: dictionary_set_def strdup_def dest: dictentry_find_None
        split: if_splits option.splits sum.splits prod.splits)
  from set_key_failure [OF sk r(2) fs] obtain v where
    v: "val = Some v"
    and av: "add_value al g1 d dup delim de ?key v = Inr (r, g2, d2)"
    and lk: "lookup_pair g1 d de ?key = Inr None"
    by blast
  have nn: "delim = None \<Longrightarrow> de = noname_ptr d"
    using fs by (simp add: find_section_def)
  from add_value_failure [OF av r(2) nn] lk v show ?thesis
    by (auto simp: key dest: lookup_pair_None)
qed

subsection \<open>A \<^verbatim>\<open>strdup\<close> that fails\<close>

text \<open>
  The code does not test what \<^verbatim>\<open>strdup\<close> returns. When the copy of the address fails,
  \<^verbatim>\<open>strchr\<close> is given \<^verbatim>\<open>NULL\<close>. When the copy of the value, of the key or of the
  section name fails, \<^verbatim>\<open>dictionary_set\<close> returns 0 and stores \<^verbatim>\<open>NULL\<close>: the
  \<^verbatim>\<open>get\<close> of the address then returns \<^verbatim>\<open>NULL\<close>, or a later search passes the
  \<^verbatim>\<open>NULL\<close> key or name to \<^verbatim>\<open>strcmp\<close>.
\<close>

lemma strdup_not_tested:
  "\<not> strdup_address al \<Longrightarrow> dictionary_set al g (Some d) (Some a) val = Inl NullDeref"
  "returns [Call_set (alloc_ok\<lparr>strdup_val := False\<rparr>) (Some ''s:k'') (Some ''v''),
            get_or ''s:k'' ''def''] = Inr [Ret 0, Val None]"
  "returns [Call_set (alloc_ok\<lparr>strdup_key := False\<rparr>) (Some ''s:k'') (Some ''v'')]
     = Inr [Ret 0]"
  "returns [Call_set (alloc_ok\<lparr>strdup_key := False\<rparr>) (Some ''s:k'') (Some ''v''),
            get_or ''s:k'' ''def''] = Inl NullDeref"
  "returns [Call_set (alloc_ok\<lparr>strdup_name := False\<rparr>) (Some ''s:k'') (Some ''v''),
            set_to ''g'' ''0''] = Inr [Ret 0, Ret 0]"
  "returns [Call_set (alloc_ok\<lparr>strdup_name := False\<rparr>) (Some ''s:k'') (Some ''v''),
            set_to ''g'' ''0'', get_or ''s:k'' ''def''] = Inl NullDeref"
  by (simp add: dictionary_set_def strdup_def) code_simp+

subsection \<open>An address without a colon and without a value\<close>

text \<open>
  By design such a call removes the section of that name when there is one, and deletes
  the unnamed key otherwise: with a section \<^verbatim>\<open>x\<close> and an unnamed key \<^verbatim>\<open>x\<close>,
  \<^verbatim>\<open>set(d, "x", NULL)\<close> returns 0 and \<^verbatim>\<open>get(d, "x", "def")\<close> still returns the value
  of the key, while \<^verbatim>\<open>x:k\<close> is gone.
\<close>

lemma bare_address_removes_section:
  "returns [set_to ''x:k'' ''1'', set_to ''x'' ''2'', remove ''x'',
            get_or ''x'' ''def'', get_or ''x:k'' ''def'']
     = Inr [Ret 0, Ret 0, Ret 0, Val (Some ''2''), Val (Some ''def'')]"
  by code_simp

subsection \<open>The example dictionaries\<close>

text \<open>The example dictionaries are what the calls that describe them produce.\<close>

lemma examples_reached:
  "calls [set_to ''s:k'' ''1''] fresh = Inr ([Ret 0], (statics_s, Some dict_s_k))"
  "calls [set_to ''k'' ''1''] fresh = Inr ([Ret 0], (statics_noname, Some dict_k))"
  "calls [set_to ''a:k'' ''1'', set_to ''b:k'' ''1'', set_to ''c:k'' ''1'', set_to ''d:k'' ''1'',
          set_to ''e:k'' ''1''] fresh
     = Inr ([Ret 0, Ret 0, Ret 0, Ret 0, Ret 0], (statics_full, Some dict_full))"
  "calls [set_to ''k0'' ''1'', set_to ''k1'' ''1'', set_to ''k2'' ''1'', set_to ''k3'' ''1'',
          set_to ''k4'' ''1'', set_to ''k5'' ''1'', set_to ''k6'' ''1'', set_to ''k7'' ''1'',
          set_to ''k8'' ''1'', set_to ''k9'' ''1''] fresh
     = Inr ([Ret 0, Ret 0, Ret 0, Ret 0, Ret 0, Ret 0, Ret 0, Ret 0, Ret 0, Ret 0],
            (statics_noname, Some dict_unnamed_full))"
  "calls [Call_set alloc_fail (Some ''s:k'') (Some ''v'')] fresh
     = Inr ([Ret (- 1)], (statics_s, Some dict_s_empty))"
  by code_simp+

section \<open>The claims\<close>

subsection \<open>C1: round trip\<close>

text \<open>
  C1 states that a \<^verbatim>\<open>get\<close> right after a successful \<^verbatim>\<open>set(d, a, v)\<close> returns \<open>v\<close>, for
  every dictionary. The code does not: once the section \<^verbatim>\<open>s\<close> has been removed, the
  statics still pair the hash of \<^verbatim>\<open>"s"\<close> with the zeroed slot, so \<^verbatim>\<open>set(d, "s:k", "v")\<close>
  stores the pair in that slot, which has no name and hash 0, and returns 0; the
  \<^verbatim>\<open>get\<close> that follows searches for \<^verbatim>\<open>"s"\<close>, finds no section and returns the default.
\<close>

theorem C1_set_then_get_after_section_removal:
  "returns [set_to ''s:k'' ''v'', remove ''s'', set_to ''s:k'' ''v'', get_or ''s:k'' ''def'']
     = Inr [Ret 0, Ret 0, Ret 0, Val (Some ''def'')]"
  by code_simp

subsection \<open>C2: a section is never accepted on its hash alone\<close>

text \<open>
  C2 states that \<^verbatim>\<open>dictentry_find\<close> returns a section only if its name equals the name
  searched, also when the hash searched equals the remembered one. The code returns
  \<^verbatim>\<open>de_last\<close> on that equality without comparing names: \<^verbatim>\<open>"aqaa"\<close> and \<^verbatim>\<open>"elue"\<close>
  have the same hash, and after \<^verbatim>\<open>set(d, "aqaa:k", "1")\<close> the search for \<^verbatim>\<open>"elue"\<close>
  returns the section named \<^verbatim>\<open>"aqaa"\<close>; \<^verbatim>\<open>get(d, "elue:k", "def")\<close> returns \<^verbatim>\<open>"1"\<close>.
  No collision is needed: after the sections \<^verbatim>\<open>a\<close> and \<^verbatim>\<open>b\<close> have been created in
  that order and sorted by hash, the search for \<^verbatim>\<open>"b"\<close> returns the slot where
  \<^verbatim>\<open>b\<close> was, which now holds the section named \<^verbatim>\<open>"a"\<close>. In general the remembered
  pointer is returned whenever the hashes agree (lemma \<open>dictentry_find_cached\<close>).
\<close>

theorem C2_find_returns_section_of_other_name:
  "dictionary_hash (Some ''elue'') = dictionary_hash (Some ''aqaa'') \<and>
   returns [set_to ''aqaa:k'' ''1'', Call_find (Some ''elue''), get_or ''elue:k'' ''def'']
     = Inr [Ret 0, Found (Some (Entry 0)) (Some ''aqaa''), Val (Some ''1'')] \<and>
   dictionary_hash (Some ''b'') < dictionary_hash (Some ''a'') \<and>
   returns [set_to ''a:k'' ''1'', set_to ''b:k'' ''2'', Call_sort_hash, Call_find (Some ''b'')]
     = Inr [Ret 0, Ret 0, Done, Found (Some (Entry 1)) (Some ''a'')]"
  by code_simp

subsection \<open>C3: keys with the same hash\<close>

text \<open>
  C3 states that two different keys with the same hash in one section can both be set
  and retrieved, sorted or not, the search covering the whole run of equal hashes, also
  a run that starts at index 0. In the code the scan that follows the step back to the
  start of the run increments before it reads, so a run that starts at index 0 is searched
  from index 1. With the keys \<^verbatim>\<open>"aqaa"\<close>, \<^verbatim>\<open>"elue"\<close> (equal hashes) and \<^verbatim>\<open>"a"\<close>
  (larger hash) in the unnamed section, all three values are found before the sort by
  hash; after it the binary search starts at index 1 and the key at index 0 is not found,
  whichever of the two was inserted first (the sort modelled keeps equal hashes in
  insertion order; a sort that swaps them loses the other key).
\<close>

theorem C3_first_key_of_run_at_index_0_not_found:
  "dictionary_hash (Some ''aqaa'') = dictionary_hash (Some ''elue'') \<and>
   dictionary_hash (Some ''elue'') < dictionary_hash (Some ''a'') \<and>
   returns [set_to ''aqaa'' ''1'', set_to ''elue'' ''2'', set_to ''a'' ''3'',
            get_or ''aqaa'' ''def'', get_or ''elue'' ''def'', Call_sort_hash,
            get_or ''aqaa'' ''def'', get_or ''elue'' ''def'']
     = Inr [Ret 0, Ret 0, Ret 0, Val (Some ''1''), Val (Some ''2''), Done,
            Val (Some ''def''), Val (Some ''2'')] \<and>
   returns [set_to ''elue'' ''2'', set_to ''aqaa'' ''1'', set_to ''a'' ''3'',
            get_or ''aqaa'' ''def'', get_or ''elue'' ''def'', Call_sort_hash,
            get_or ''aqaa'' ''def'', get_or ''elue'' ''def'']
     = Inr [Ret 0, Ret 0, Ret 0, Val (Some ''1''), Val (Some ''2''), Done,
            Val (Some ''1''), Val (Some ''def'')]"
  by code_simp

subsection \<open>C4: sorting does not change what is retrieved\<close>

text \<open>
  C4 states that every live address returns the same value before and after the two
  sorts, in any order, and that no section stays marked as sorted by hash after a sort
  by name. In the code \<^verbatim>\<open>dictentry_sort_nm\<close> leaves \<^verbatim>\<open>sorted\<close> as it is: with the
  unnamed keys \<^verbatim>\<open>"a"\<close>, \<^verbatim>\<open>"b"\<close>, \<^verbatim>\<open>"c"\<close> (hash order b, a, c), sorted by hash and then
  by name, the binary search runs over the name order and misses \<^verbatim>\<open>"a"\<close>. Independently,
  the sort by hash moves the sections while \<^verbatim>\<open>de_last\<close> keeps pointing at the slot: after
  sections \<^verbatim>\<open>a\<close> and \<^verbatim>\<open>b\<close> have been created in that order and sorted by hash,
  \<^verbatim>\<open>get(d, "b:k", "def")\<close> returns the value of \<^verbatim>\<open>a:k\<close>.
\<close>

theorem C4_values_change_after_sorts:
  "dictionary_hash (Some ''b'') < dictionary_hash (Some ''a'') \<and>
   dictionary_hash (Some ''a'') < dictionary_hash (Some ''c'') \<and>
   returns [set_to ''a'' ''1'', set_to ''b'' ''2'', set_to ''c'' ''3'', Call_sort_hash,
            get_or ''a'' ''def'', Call_sort, get_or ''a'' ''def'']
     = Inr [Ret 0, Ret 0, Ret 0, Done, Val (Some ''1''), Done, Val (Some ''def'')] \<and>
   returns [set_to ''a:k'' ''1'', set_to ''b:k'' ''2'', get_or ''b:k'' ''def'', Call_sort_hash,
            get_or ''b:k'' ''def'']
     = Inr [Ret 0, Ret 0, Val (Some ''2''), Done, Val (Some ''1'')]"
  by code_simp

subsection \<open>C5: a failed allocation\<close>

text \<open>
  C5 states that when an allocation during growth fails, \<^verbatim>\<open>set\<close> reports failure and
  leaves the dictionary exactly as it was. The code has no step that undoes what was done
  before the allocation: it clears \<^verbatim>\<open>d->sorted\<close> before the section array grows, and
  it takes the slot of a new section, names it and clears the section's \<^verbatim>\<open>sorted\<close>
  before the pair array grows. On the new dictionary, \<^verbatim>\<open>set(d, "s:k", "v")\<close> with a
  failing \<^verbatim>\<open>realloc\<close> returns -1 and leaves a section \<^verbatim>\<open>s\<close> without pairs: the
  section count is 1. After a sort by hash such a call also clears \<^verbatim>\<open>d->sorted\<close>; and
  when the section array was full and has grown before the pair array could not, the
  capacity has changed from 5 to 10.
\<close>

theorem C5_failed_set_leaves_section:
  "dictionary_set alloc_fail statics_init (Some new_dictionary) (Some ''s:k'') (Some ''v'')
     = Inr (- 1, statics_s,
            Some (new_dictionary
                    \<lparr>d_n := 1,
                      d_entries :=
                        Some (zero_dictentry
                                \<lparr>de_name := Some ''s'', de_hash := dictionary_hash (Some ''s'')\<rparr>
                              # replicate 4 zero_dictentry)\<rparr>)) \<and>
   d_n new_dictionary = 0 \<and> d_entries new_dictionary = Some (replicate 5 zero_dictentry) \<and>
   counts [set_to ''a:k'' ''1'', Call_sort_hash] = Inr ([Ret 0, Done], Some (1, 5, True)) \<and>
   counts [set_to ''a:k'' ''1'', Call_sort_hash, Call_set alloc_fail (Some ''b:k'') (Some ''2'')]
     = Inr ([Ret 0, Done, Ret (- 1)], Some (2, 5, False)) \<and>
   counts [set_to ''a:k'' ''1'', set_to ''b:k'' ''1'', set_to ''c:k'' ''1'', set_to ''d:k'' ''1'',
           set_to ''e:k'' ''1'']
     = Inr ([Ret 0, Ret 0, Ret 0, Ret 0, Ret 0], Some (5, 5, False)) \<and>
   counts [set_to ''a:k'' ''1'', set_to ''b:k'' ''1'', set_to ''c:k'' ''1'', set_to ''d:k'' ''1'',
           set_to ''e:k'' ''1'',
           Call_set (alloc_ok\<lparr>grow_dictentry := None\<rparr>) (Some ''f:k'') (Some ''1'')]
     = Inr ([Ret 0, Ret 0, Ret 0, Ret 0, Ret 0, Ret (- 1)], Some (6, 10, False))"
  by code_simp

text \<open>
  C5 as amended. Let \<^verbatim>\<open>set(d, a, v)\<close> be called with a dictionary, an address and a value
  that are not null; let the copy of the address made at the entry of the function succeed,
  and let the search for the section of \<open>a\<close> return: \<open>de\<close> is the section it selects and
  \<open>g1\<close> are the statics it leaves. A growth whose \<^verbatim>\<open>realloc\<close> fails is always reported,
  by -1, and no pair is written; the state the call leaves is the state before the call
  with the following changes.
  \<^item> The address names a section that was not found, and the section array is full:
    \<^verbatim>\<open>d->sorted\<close> is cleared.
  \<^item> A section was selected, the key is not in it and its pair array is full: the
    \<^verbatim>\<open>sorted\<close> flag of that section is cleared, and the statics point to the section.
  \<^item> The address names a section that was not found, the section array had room or has
    grown, and the pair array of the slot taken is full: \<^verbatim>\<open>d->sorted\<close> is cleared, the
    section array is as its growth left it, the slot \<^verbatim>\<open>d->n\<close> carries the name (the
    result of its \<^verbatim>\<open>strdup\<close>) and the hash of the section with the \<^verbatim>\<open>sorted\<close> flag
    cleared, the count is \<^verbatim>\<open>d->n + 1\<close>, and the statics point to the new section.

  Conversely, a call that returns a code other than 0 has a value and is in one of these
  three cases. The statement is about the two \<^verbatim>\<open>realloc\<close> calls, which are the growth;
  the results of \<^verbatim>\<open>strdup\<close> are not tested by the code, and what a failed \<^verbatim>\<open>strdup\<close>
  leaves is shown in lemma \<open>strdup_not_tested\<close>.
\<close>

theorem C5_failed_growth_reported:
  assumes sp: "split_colon a = (dup, delim)"
    and cp: "strdup_address al"
    and fs: "find_section g (Some d) dup delim = Inr (de, g1)"
  shows
    "(delim \<noteq> None \<and> de = None \<and> d_n d = d_len d \<and> grow_dictionary al = None \<longrightarrow>
        dictionary_set al g (Some d) (Some a) (Some v)
          = Inr (- 1, g1, Some (d\<lparr>d_sorted := False\<rparr>))) \<and>
     (\<forall>p e. de = Some p \<and> deref_de g1 d p = Inr e \<and>
             keyval_find (Some e) (Some (address_key a)) = Inr None \<and>
             de_n e = de_len e \<and> grow_dictentry al = None \<longrightarrow>
        dictionary_set al g (Some d) (Some a) (Some v)
          = Inr (- 1,
                 store_out (g1\<lparr>de_last := Some p, hash_last := de_hash e\<rparr>) p
                   (e\<lparr>de_sorted := False\<rparr>),
                 Some (store_de d p (e\<lparr>de_sorted := False\<rparr>)))) \<and>
     (\<forall>dg es e. delim \<noteq> None \<and> de = None \<and>
             (if d_n d = d_len d
              then dictionary_grow (grow_dictionary al) (d\<lparr>d_sorted := False\<rparr>)
              else (0, d\<lparr>d_sorted := False\<rparr>)) = (0, dg) \<and>
             d_entries dg = Some es \<and> at es (int (d_n d)) = Inr e \<and>
             de_n e = de_len e \<and> grow_dictentry al = None \<longrightarrow>
        dictionary_set al g (Some d) (Some a) (Some v)
          = Inr (- 1,
                 g1\<lparr>de_last := Some (Entry (d_n d)), hash_last := dictionary_hash (Some dup)\<rparr>,
                 Some (dg\<lparr>d_entries :=
                             Some (es[d_n d := e\<lparr>de_name := strdup (strdup_name al) dup,
                                                  de_hash := dictionary_hash (Some dup),
                                                  de_sorted := False\<rparr>]),
                           d_n := d_n d + 1\<rparr>))) \<and>
     (\<forall>val r g2 d2. dictionary_set al g (Some d) (Some a) val = Inr (r, g2, d2) \<and> r \<noteq> 0 \<longrightarrow>
        val \<noteq> None \<and>
        ((delim \<noteq> None \<and> de = None \<and> d_n d = d_len d \<and> grow_dictionary al = None) \<or>
         (\<exists>p e. de = Some p \<and> deref_de g1 d p = Inr e \<and>
                 keyval_find (Some e) (Some (address_key a)) = Inr None \<and>
                 de_n e = de_len e \<and> grow_dictentry al = None) \<or>
         (\<exists>dg es e. delim \<noteq> None \<and> de = None \<and>
                 (if d_n d = d_len d
                  then dictionary_grow (grow_dictionary al) (d\<lparr>d_sorted := False\<rparr>)
                  else (0, d\<lparr>d_sorted := False\<rparr>)) = (0, dg) \<and>
                 d_entries dg = Some es \<and> at es (int (d_n d)) = Inr e \<and>
                 de_n e = de_len e \<and> grow_dictentry al = None)))"
proof -
  let ?key = "case delim of None \<Rightarrow> dup | Some k \<Rightarrow> k"
  have key: "address_key a = ?key"
    by (simp add: address_key_split [OF sp] split: option.splits)
  have setk: "dictionary_set al g (Some d) (Some a) (Some v) = set_key al g d dup delim (Some v)"
    by (rule dictionary_set_key [OF sp cp]) simp
  have 1: "delim \<noteq> None \<and> de = None \<and> d_n d = d_len d \<and> grow_dictionary al = None \<longrightarrow>
        dictionary_set al g (Some d) (Some a) (Some v)
          = Inr (- 1, g1, Some (d\<lparr>d_sorted := False\<rparr>))"
    using fs
    by (auto simp: setk set_key_def lookup_pair_def add_value_def new_entry_def
        dictionary_grow_def Let_def)
  have 2: "dictionary_set al g (Some d) (Some a) (Some v)
          = Inr (- 1,
                 store_out (g1\<lparr>de_last := Some p, hash_last := de_hash e\<rparr>) p
                   (e\<lparr>de_sorted := False\<rparr>),
                 Some (store_de d p (e\<lparr>de_sorted := False\<rparr>)))"
    if "de = Some p \<and> deref_de g1 d p = Inr e \<and>
             keyval_find (Some e) (Some (address_key a)) = Inr None \<and>
             de_n e = de_len e \<and> grow_dictentry al = None" for p e
    using fs that
    by (simp add: setk set_key_def lookup_pair_def add_value_def append_pair_def
        dictentry_grow_def Let_def key)
  have 3: "dictionary_set al g (Some d) (Some a) (Some v)
          = Inr (- 1,
                 g1\<lparr>de_last := Some (Entry (d_n d)), hash_last := dictionary_hash (Some dup)\<rparr>,
                 Some (dg\<lparr>d_entries :=
                             Some (es[d_n d := e\<lparr>de_name := strdup (strdup_name al) dup,
                                                  de_hash := dictionary_hash (Some dup),
                                                  de_sorted := False\<rparr>]),
                           d_n := d_n d + 1\<rparr>))"
    if h: "delim \<noteq> None \<and> de = None \<and>
             (if d_n d = d_len d
              then dictionary_grow (grow_dictionary al) (d\<lparr>d_sorted := False\<rparr>)
              else (0, d\<lparr>d_sorted := False\<rparr>)) = (0, dg) \<and>
             d_entries dg = Some es \<and> at es (int (d_n d)) = Inr e \<and>
             de_n e = de_len e \<and> grow_dictentry al = None" for dg es e
  proof -
    from h have n: "d_n dg = d_n d"
      by (auto simp: dictionary_grow_def split: if_splits option.splits)
    from h have lt: "d_n d < length es" by (auto dest: at_Inr)
    let ?e' = "e\<lparr>de_name := strdup (strdup_name al) dup, de_hash := dictionary_hash (Some dup)\<rparr>"
    let ?d2 = "dg\<lparr>d_entries := Some (es[d_n d := ?e']), d_n := d_n d + 1\<rparr>"
    from h n have ne: "new_entry al d dup = Inr (0, ?d2, Some (Entry (d_n d)))"
      by (simp add: new_entry_def Let_def)
    have dr: "deref_de g1 ?d2 (Entry (d_n d)) = Inr ?e'"
      using lt by (simp add: deref_de_def at_def)
    from h dr have ap:
      "append_pair al g1 ?d2 (Some (Entry (d_n d))) ?key v (dictionary_hash (Some ?key))
         = Inr (- 1,
                g1\<lparr>de_last := Some (Entry (d_n d)), hash_last := dictionary_hash (Some dup)\<rparr>,
                dg\<lparr>d_entries :=
                      Some (es[d_n d := e\<lparr>de_name := strdup (strdup_name al) dup,
                                           de_hash := dictionary_hash (Some dup),
                                           de_sorted := False\<rparr>]),
                    d_n := d_n d + 1\<rparr>)"
      by (simp add: append_pair_def dictentry_grow_def Let_def store_out_def store_de_def)
    from fs h ne ap show ?thesis
      by (auto simp: setk set_key_def lookup_pair_def add_value_def Let_def)
  qed
  have 4: "val \<noteq> None \<and>
        ((delim \<noteq> None \<and> de = None \<and> d_n d = d_len d \<and> grow_dictionary al = None) \<or>
         (\<exists>p e. de = Some p \<and> deref_de g1 d p = Inr e \<and>
                 keyval_find (Some e) (Some (address_key a)) = Inr None \<and>
                 de_n e = de_len e \<and> grow_dictentry al = None) \<or>
         (\<exists>dg es e. delim \<noteq> None \<and> de = None \<and>
                 (if d_n d = d_len d
                  then dictionary_grow (grow_dictionary al) (d\<lparr>d_sorted := False\<rparr>)
                  else (0, d\<lparr>d_sorted := False\<rparr>)) = (0, dg) \<and>
                 d_entries dg = Some es \<and> at es (int (d_n d)) = Inr e \<and>
                 de_n e = de_len e \<and> grow_dictentry al = None))"
    if "dictionary_set al g (Some d) (Some a) val = Inr (r, g2, d2) \<and> r \<noteq> 0" for val r g2 d2
    using dictionary_set_failure [OF sp fs, of al val r g2 d2] that by simp
  from 1 2 3 4 show ?thesis by blast
qed

text \<open>
  Four instances, all with a \<^verbatim>\<open>realloc\<close> that fails: a sixth section for the dictionary
  whose section array is full; an eleventh pair for the unnamed section that is full; a
  pair for the section \<^verbatim>\<open>s\<close> when \<^verbatim>\<open>de_last\<close> points to the empty section \<^verbatim>\<open>s\<close> of
  another dictionary, which is the section selected; and the call on the new dictionary
  described above.
\<close>

theorem C5_failed_growth_witness:
  "dictionary_set alloc_fail statics_full (Some dict_full) (Some ''f:k'') (Some ''1'')
     = Inr (- 1, statics_full, Some (dict_full\<lparr>d_sorted := False\<rparr>)) \<and>
   dictionary_set alloc_fail statics_noname (Some dict_unnamed_full) (Some ''k'') (Some ''1'')
     = Inr (- 1, statics_noname, Some dict_unnamed_full) \<and>
   dictionary_set alloc_fail statics_other (Some new_dictionary) (Some ''s:k'') (Some ''v'')
     = Inr (- 1, statics_other, Some new_dictionary) \<and>
   dictionary_set alloc_fail statics_init (Some new_dictionary) (Some ''s:k'') (Some ''v'')
     = Inr (- 1, statics_s, Some dict_s_empty)"
proof -
  have cp: "strdup_address alloc_fail"
    by (simp add: alloc_fail_def)
  have al: "grow_dictionary alloc_fail = None" "grow_dictentry alloc_fail = None"
    "strdup_name alloc_fail"
    by (simp_all add: alloc_fail_def)
  have nd: "d_n new_dictionary = 0" "d_len new_dictionary = 5" "\<not> d_sorted new_dictionary"
    "d_entries new_dictionary = Some (replicate 5 zero_dictentry)"
    by (simp_all add: new_dictionary_def dictionary_new_def DICTMINSZ_def)
  have 1: "dictionary_set alloc_fail statics_full (Some dict_full) (Some ''f:k'') (Some ''1'')
             = Inr (- 1, statics_full, Some (dict_full\<lparr>d_sorted := False\<rparr>))"
  proof -
    have sp: "split_colon ''f:k'' = (''f'', Some ''k'')"
      by (simp add: split_colon_def)
    have fs: "find_section statics_full (Some dict_full) ''f'' (Some ''k'') = Inr (None, statics_full)"
      by code_simp
    have c: "Some ''k'' \<noteq> None \<and> (None :: deref option) = None \<and> d_n dict_full = d_len dict_full \<and>
             grow_dictionary alloc_fail = None"
      by (simp add: dict_full_def nd al)
    from C5_failed_growth_reported [OF sp cp fs, of "''1''", THEN conjunct1, rule_format, OF c]
    show ?thesis .
  qed
  have 2: "dictionary_set alloc_fail statics_noname (Some dict_unnamed_full) (Some ''k'') (Some ''1'')
             = Inr (- 1, statics_noname, Some dict_unnamed_full)"
  proof -
    have sp: "split_colon ''k'' = (''k'', None)"
      by (simp add: split_colon_def)
    have fs: "find_section statics_noname (Some dict_unnamed_full) ''k'' None
                = Inr (Some Noname, statics_noname)"
      by (simp add: find_section_def noname_ptr_def dict_unnamed_full_def)
    have kf: "keyval_find (Some unnamed_full) (Some ''k'') = Inr None"
      by code_simp
    have c: "Some Noname = Some Noname \<and>
             deref_de statics_noname dict_unnamed_full Noname = Inr unnamed_full \<and>
             keyval_find (Some unnamed_full) (Some (address_key ''k'')) = Inr None \<and>
             de_n unnamed_full = de_len unnamed_full \<and> grow_dictentry alloc_fail = None"
      using kf
      by (simp add: deref_de_def dict_unnamed_full_def address_key_def split_colon_def al)
         (simp add: unnamed_full_def)
    have ev: "store_out (statics_noname\<lparr>de_last := Some Noname, hash_last := de_hash unnamed_full\<rparr>)
                Noname (unnamed_full\<lparr>de_sorted := False\<rparr>) = statics_noname"
      "store_de dict_unnamed_full Noname (unnamed_full\<lparr>de_sorted := False\<rparr>) = dict_unnamed_full"
      by (simp_all add: store_out_def store_de_def statics_noname_def dict_unnamed_full_def
          unnamed_full_def)
    from C5_failed_growth_reported [OF sp cp fs, of "''1''", THEN conjunct2, THEN conjunct1, rule_format,
        OF c]
    show ?thesis by (simp only: ev)
  qed
  have 3: "dictionary_set alloc_fail statics_other (Some new_dictionary) (Some ''s:k'') (Some ''v'')
             = Inr (- 1, statics_other, Some new_dictionary)"
  proof -
    have sp: "split_colon ''s:k'' = (''s'', Some ''k'')"
      by (simp add: split_colon_def)
    have fs: "find_section statics_other (Some new_dictionary) ''s'' (Some ''k'')
                = Inr (Some (Other 0), statics_other)"
      by (simp add: find_section_def dictentry_find_def statics_other_def nd)
    have c: "Some (Other 0) = Some (Other 0) \<and>
             deref_de statics_other new_dictionary (Other 0) = Inr section_s_empty \<and>
             keyval_find (Some section_s_empty) (Some (address_key ''s:k'')) = Inr None \<and>
             de_n section_s_empty = de_len section_s_empty \<and> grow_dictentry alloc_fail = None"
      by (simp add: deref_de_def statics_other_def keyval_find_def section_s_empty_def
          zero_dictentry_def al)
    have ev: "store_out (statics_other\<lparr>de_last := Some (Other 0), hash_last := de_hash section_s_empty\<rparr>)
                (Other 0) (section_s_empty\<lparr>de_sorted := False\<rparr>) = statics_other"
      "store_de new_dictionary (Other 0) (section_s_empty\<lparr>de_sorted := False\<rparr>) = new_dictionary"
      by (simp_all add: store_out_def store_de_def statics_other_def section_s_empty_def
          zero_dictentry_def)
    from C5_failed_growth_reported [OF sp cp fs, of "''v''", THEN conjunct2, THEN conjunct1, rule_format,
        OF c]
    show ?thesis by (simp only: ev)
  qed
  have 4: "dictionary_set alloc_fail statics_init (Some new_dictionary) (Some ''s:k'') (Some ''v'')
             = Inr (- 1, statics_s, Some dict_s_empty)"
  proof -
    have sp: "split_colon ''s:k'' = (''s'', Some ''k'')"
      by (simp add: split_colon_def)
    have fs: "find_section statics_init (Some new_dictionary) ''s'' (Some ''k'')
                = Inr (None, statics_init)"
      by code_simp
    let ?es = "replicate 5 zero_dictentry"
    have c: "Some ''k'' \<noteq> None \<and> (None :: deref option) = None \<and>
             (if d_n new_dictionary = d_len new_dictionary
              then dictionary_grow (grow_dictionary alloc_fail) (new_dictionary\<lparr>d_sorted := False\<rparr>)
              else (0, new_dictionary\<lparr>d_sorted := False\<rparr>)) = (0, new_dictionary) \<and>
             d_entries new_dictionary = Some ?es \<and>
             at ?es (int (d_n new_dictionary)) = Inr zero_dictentry \<and>
             de_n zero_dictentry = de_len zero_dictentry \<and> grow_dictentry alloc_fail = None"
      by (simp add: nd al at_def zero_dictentry_def)
    have ev: "statics_init\<lparr>de_last := Some (Entry (d_n new_dictionary)),
                            hash_last := dictionary_hash (Some ''s'')\<rparr> = statics_s"
      "new_dictionary\<lparr>d_entries :=
                         Some (?es[d_n new_dictionary :=
                                     zero_dictentry\<lparr>de_name := strdup (strdup_name alloc_fail) ''s'',
                                                     de_hash := dictionary_hash (Some ''s''),
                                                     de_sorted := False\<rparr>]),
                       d_n := d_n new_dictionary + 1\<rparr>
         = dict_s_empty"
      by (simp_all add: nd al statics_init_def statics_s_def dict_s_empty_def section_s_empty_def
          strdup_def zero_dictentry_def numeral_eq_Suc)
    from C5_failed_growth_reported [OF sp cp fs, of "''v''", THEN conjunct2, THEN conjunct2, THEN conjunct1,
        rule_format, OF c]
    show ?thesis by (simp only: ev)
  qed
  from 1 2 3 4 show ?thesis by (intro conjI)
qed

subsection \<open>C6: dump\<close>

text \<open>
  C6 states, among other things, that the dump reports an empty dictionary only when
  there are neither sections nor unnamed pairs, and that a dictionary holding only unnamed
  pairs is dumped. The code returns \<^verbatim>\<open>DERR_EMPTY\<close> whenever \<^verbatim>\<open>d->n < 1\<close>, before it looks
  at the unnamed section: with the single unnamed key \<^verbatim>\<open>a\<close> nothing is written.
\<close>

theorem C6_unnamed_pairs_alone_are_not_dumped:
  "returns [set_to ''a'' ''1'', get_or ''a'' ''def'', Call_dump]
     = Inr [Ret 0, Val (Some ''1''), Dumped DERR_EMPTY (Some [])]"
  by code_simp

subsection \<open>C7: removing a section\<close>

text \<open>
  C7 states that \<^verbatim>\<open>set(d, "sect", NULL)\<close> on a dictionary containing the section
  \<^verbatim>\<open>sect\<close> zeroes that section. The section zeroed is the one \<^verbatim>\<open>dictentry_find\<close>
  returns, and after a sort by hash the remembered pointer designates another section:
  with sections \<^verbatim>\<open>a\<close> and \<^verbatim>\<open>b\<close> created in that order and sorted by hash,
  \<^verbatim>\<open>set(d, "b", NULL)\<close> returns 0 and zeroes section \<^verbatim>\<open>a\<close>; the dump that follows
  still shows \<^verbatim>\<open>[b]\<close> with its pair, \<^verbatim>\<open>a:k\<close> is gone, and once another call has
  changed the statics (here a set of the unnamed key \<^verbatim>\<open>g\<close>) \<^verbatim>\<open>get(d, "b:k", "def")\<close>
  returns the value again. When \<^verbatim>\<open>dictentry_find\<close> does return the section
  searched, the call does what C7 says (lemma \<open>remove_section_found\<close>).
\<close>

theorem C7_other_section_removed:
  "dictionary_hash (Some ''b'') < dictionary_hash (Some ''a'') \<and>
   returns [set_to ''a:k'' ''1'', set_to ''b:k'' ''2'', Call_sort_hash, remove ''b'',
            Call_dump, get_or ''a:k'' ''def'', set_to ''g'' ''0'', get_or ''b:k'' ''def'']
     = Inr [Ret 0, Ret 0, Done, Ret 0,
            Dumped DERR_OK
              (Some ([CHR 0x0A] @ ''[b]'' @ [CHR 0x0A] @ pad30 ''k'' @ '' = 2'' @ [CHR 0x0A])),
            Val (Some ''def''), Ret 0, Val (Some ''2'')]"
  by code_simp

subsection \<open>C8: deleting a key\<close>

text \<open>
  C8 states that for every valid address \<^verbatim>\<open>set(d, a, NULL)\<close> succeeds, that
  \<^verbatim>\<open>get(d, a, default)\<close> then returns the default, that the address can be set again,
  and that deleting a key that is not there does nothing and reports success. The code
  leaves a deleted pair in the array as zeroed memory, hash 0 and a \<^verbatim>\<open>NULL\<close> key, and
  does not decrease the count; the searches compare the hash and then pass the key to
  \<^verbatim>\<open>strcmp\<close> without testing it. So a search for a key whose hash is 0 reads the
  \<^verbatim>\<open>NULL\<close> key of a deleted pair. \<^verbatim>\<open>"oxtesww"\<close> has the hash 0: after
  \<^verbatim>\<open>set(d, "s:oxtesww", "1")\<close> and \<^verbatim>\<open>set(d, "s:oxtesww", NULL)\<close> have returned 0, the
  \<^verbatim>\<open>get\<close> of that address, its second deletion and setting it again each dereference
  \<^verbatim>\<open>NULL\<close>. Independently, the pair deleted is the one found in the section that
  \<^verbatim>\<open>dictentry_find\<close> returns: with sections \<^verbatim>\<open>a\<close> and \<^verbatim>\<open>b\<close> created in that order
  and sorted by hash, \<^verbatim>\<open>set(d, "b:k", NULL)\<close> returns 0 and deletes \<^verbatim>\<open>a:k\<close>, and once
  another call has changed the statics \<^verbatim>\<open>get(d, "b:k", "def")\<close> returns the value again.
  (By design, moreover, an address without a colon that names a section removes that
  section and not the unnamed key: lemma \<open>bare_address_removes_section\<close>.)
\<close>

theorem C8_search_reads_deleted_pair:
  "dictionary_hash (Some ''oxtesww'') = 0 \<and>
   returns [set_to ''s:oxtesww'' ''1'', get_or ''s:oxtesww'' ''def'', remove ''s:oxtesww'']
     = Inr [Ret 0, Val (Some ''1''), Ret 0] \<and>
   returns [set_to ''s:oxtesww'' ''1'', remove ''s:oxtesww'', get_or ''s:oxtesww'' ''def'']
     = Inl NullDeref \<and>
   returns [set_to ''s:oxtesww'' ''1'', remove ''s:oxtesww'', remove ''s:oxtesww'']
     = Inl NullDeref \<and>
   returns [set_to ''s:oxtesww'' ''1'', remove ''s:oxtesww'', set_to ''s:oxtesww'' ''2'']
     = Inl NullDeref \<and>
   dictionary_hash (Some ''b'') < dictionary_hash (Some ''a'') \<and>
   returns [set_to ''a:k'' ''1'', set_to ''b:k'' ''2'', Call_sort_hash, remove ''b:k'',
            get_or ''a:k'' ''def'', set_to ''g'' ''0'', get_or ''b:k'' ''def'']
     = Inr [Ret 0, Ret 0, Done, Ret 0, Val (Some ''def''), Ret 0, Val (Some ''2'')]"
  by code_simp

subsection \<open>C9: null arguments\<close>

text \<open>
  C9 states that \<^verbatim>\<open>get\<close> and \<^verbatim>\<open>set\<close> reject a null dictionary or address without
  dereferencing it. \<^verbatim>\<open>dictionary_set\<close> does (it returns -1 and changes nothing), but
  \<^verbatim>\<open>dictionary_get\<close> has no such test: a null address goes to \<^verbatim>\<open>strdup\<close>, with a null
  dictionary an address without colon reads \<^verbatim>\<open>d->noname\<close>, and an address with a colon
  returns the default as if the key were missing.
\<close>

theorem C9_get_dereferences_null:
  "dictionary_get g d None def = Inl NullDeref \<and>
   dictionary_get g None (Some ''key'') def = Inl NullDeref \<and>
   dictionary_get g None (Some ''sect:key'') def = Inr (def, g) \<and>
   dictionary_set al g None key val = Inr (- 1, g, None) \<and>
   dictionary_set al g d None val = Inr (- 1, g, d)"
  by (simp add: dictionary_get_def dictionary_set_def split_colon_def find_section_def
      dictentry_find_def split: option.split)

subsection \<open>C10: replacing a value\<close>

text \<open>
  C10 states that \<^verbatim>\<open>set(d, a, v)\<close> on an existing key changes the value of that pair
  and nothing else. The pair changed is the one found in the section that
  \<^verbatim>\<open>dictentry_find\<close> returns: with sections \<^verbatim>\<open>a\<close> and \<^verbatim>\<open>b\<close> created in that order and
  sorted by hash, \<^verbatim>\<open>set(d, "b:k", "9")\<close> returns 0, changes the value of \<^verbatim>\<open>a:k\<close> and
  leaves \<^verbatim>\<open>b:k\<close> as it was. In the pair that the lookup returns, the value field is
  all that changes (lemma \<open>replace_value_frame\<close>).
\<close>

theorem C10_value_of_other_section_replaced:
  "dictionary_hash (Some ''b'') < dictionary_hash (Some ''a'') \<and>
   returns [set_to ''a:k'' ''1'', set_to ''b:k'' ''2'', Call_sort_hash, set_to ''b:k'' ''9'',
            get_or ''a:k'' ''def'', get_or ''b:k'' ''def'']
     = Inr [Ret 0, Ret 0, Done, Ret 0, Val (Some ''9''), Val (Some ''2'')]"
  by code_simp


end
